theory Spec2Isabelle
  imports Complex_Main
begin

section \<open>The data model of \<open>main.py\<close>\<close>

text \<open>
  The four SQLAlchemy models become records. A table with a primary key is a map from the
  key to the remaining columns, so \<open>Token.token\<close>, \<open>User.id\<close> and \<open>Room.id\<close> are the keys
  of the maps below and \<open>Model.query.get(k)\<close> is the lookup. Column names carry the initial
  of their table (\<open>t_\<close>, \<open>u_\<close>, \<open>r_\<close>, \<open>m_\<close>), since several tables share column names and
  \<open>id\<close> is the identity function of HOL. A nullable column that the code itself tests for
  absence, or that a fresh row leaves unset, is an \<open>option\<close>; \<open>Token.expiry\<close> and
  \<open>User.access_token_expiry\<close>, which \<open>spotify_callback\<close> fills in every row it writes, are
  plain values. The handlers modelled are \<open>get_rooms\<close>, \<open>join\<close> and \<open>message_created\<close>.

  A \<open>datetime\<close> is a naive local instant, counted in microseconds from a midnight.
  Python's \<open>datetime.timestamp()\<close> is its value in seconds (\<open>epoch_seconds\<close>, an exact
  rational where Python rounds to a float).
\<close>

type_synonym datetime = int

definition microseconds_per_second :: int where
  "microseconds_per_second = 1000000"

definition microseconds_per_day :: int where
  "microseconds_per_day = 86400 * microseconds_per_second"

definition epoch_seconds :: "datetime \<Rightarrow> rat" where
  "epoch_seconds t = of_int t / of_int microseconds_per_second"

text \<open>\<open>datetime.timedelta(seconds=n)\<close> and \<open>datetime.timedelta(days=n)\<close>.\<close>

definition timedelta_seconds :: "int \<Rightarrow> int" where
  "timedelta_seconds n = n * microseconds_per_second"

definition timedelta_days :: "int \<Rightarrow> int" where
  "timedelta_days n = n * microseconds_per_day"

text \<open>\<open>datetime.datetime.combine(d, datetime.time.min)\<close>: the midnight that starts the day of \<open>d\<close>.\<close>

definition combine_time_min :: "datetime \<Rightarrow> datetime" where
  "combine_time_min d = (d div microseconds_per_day) * microseconds_per_day"

text \<open>The value of the provider's \<open>images\<close> array; \<open>json.loads (json.dumps v) = v\<close>, so the
  \<open>images\<close> column holds the value itself.\<close>

type_synonym images = "string list"

record Token =
  t_expiry :: datetime
  t_user_id :: string

record User =
  u_display_name :: "string option"
  u_email :: "string option"
  u_profile_picture :: "string option"
  u_spotify_link :: string
  u_href :: string
  u_refresh_token :: string
  u_access_token :: string
  u_access_token_expiry :: datetime
  u_artist_room_1 :: "string option"
  u_artist_room_2 :: "string option"
  u_genre_room_1 :: "string option"
  u_genre_room_2 :: "string option"
  u_rooms_expiry :: "datetime option"

record Room =
  r_images :: "images option"
  r_name :: string
  r_room_type :: string

record Message =
  m_id :: int
  m_body :: string
  m_timestamp :: datetime
  m_user_id :: string
  m_room_id :: string

text \<open>The database: three keyed tables and the message table in insertion order.\<close>

record db =
  tokens :: "string \<rightharpoonup> Token"
  users :: "string \<rightharpoonup> User"
  rooms :: "string \<rightharpoonup> Room"
  messages :: "Message list"

text \<open>What a handler can raise. \<open>abort(403)\<close> raises an HTTP exception that Flask turns into
  the 403 response; every other exception is unhandled.\<close>

datatype error =
    HTTPException nat
  | ConnectionRefusedError string
  | AttributeError
  | IndexError
  | KeyError
  | IntegrityError

subsection \<open>Marshalled values\<close>

record user_json =
  uj_id :: string
  uj_display_name :: "string option"
  uj_profile_picture :: "string option"
  uj_spotify_link :: string

record message_json =
  mj_id :: int
  mj_body :: string
  mj_timestamp :: rat
  mj_room_id :: string
  mj_user :: user_json

text \<open>One entry of the \<open>rooms\<close> list of \<open>get_rooms\<close>; a key that the dict does not have is
  \<open>None\<close>.\<close>

record room_data =
  rd_type :: string
  rd_name :: string
  rd_id :: string
  rd_images :: "images option"
  rd_messages :: "message_json list option"

record rooms_json =
  rj_rooms :: "room_data list"
  rj_expiry :: rat

datatype response =
    Plain string nat
  | Jsonify rooms_json

subsection \<open>The identity provider\<close>

text \<open>The replies of the provider to the two requests of \<open>get_rooms\<close>, well-formed: the
  refresh of the access token and the top artists. \<open>total\<close> is reported by the provider
  beside the list of items.\<close>

record artist =
  a_id :: string
  a_name :: string
  a_images :: images
  a_genres :: "string list"

record token_data =
  td_access_token :: string
  td_expires_in :: int

record top_artists_data =
  ta_total :: int
  ta_items :: "artist list"

record provider =
  p_token_data :: token_data
  p_top_artists_data :: top_artists_data

text \<open>The readings of \<open>datetime.datetime.now()\<close> in one run of \<open>get_rooms\<close>, in the order of
  the source: the token check, the test of \<open>rooms_expiry\<close>, the test of
  \<open>access_token_expiry\<close>, the new \<open>access_token_expiry\<close>, and \<open>today()\<close>.\<close>

record clock =
  now_token :: datetime
  now_rooms :: datetime
  now_access :: datetime
  now_refresh :: datetime
  today :: datetime

section \<open>\<open>Message.marshal\<close>\<close>

definition marshal :: "db \<Rightarrow> Message \<Rightarrow> error + message_json" where
  "marshal d m =
     (case users d (m_user_id m) of
        None \<Rightarrow> Inl AttributeError
      | Some u \<Rightarrow>
          Inr \<lparr> mj_id = m_id m,
                mj_body = m_body m,
                mj_timestamp = epoch_seconds (m_timestamp m),
                mj_room_id = m_room_id m,
                mj_user = \<lparr> uj_id = m_user_id m,
                            uj_display_name = u_display_name u,
                            uj_profile_picture = u_profile_picture u,
                            uj_spotify_link = u_spotify_link u \<rparr> \<rparr>)"

text \<open>\<open>[message.marshal() for message in ms]\<close>: the first exception ends the comprehension.\<close>

fun marshal_all :: "db \<Rightarrow> Message list \<Rightarrow> error + message_json list" where
  "marshal_all d [] = Inr []"
| "marshal_all d (m # ms) =
     (case marshal d m of
        Inl e \<Rightarrow> Inl e
      | Inr j \<Rightarrow> (case marshal_all d ms of Inl e \<Rightarrow> Inl e | Inr js \<Rightarrow> Inr (j # js)))"

text \<open>The relationship \<open>Room.messages\<close> of the room with identifier \<open>rid\<close>.\<close>

definition room_messages :: "db \<Rightarrow> string \<Rightarrow> Message list" where
  "room_messages d rid = filter (\<lambda>m. m_room_id m = rid) (messages d)"

section \<open>\<open>get_rooms\<close>\<close>

subsection \<open>Genre counting and ranking\<close>

text \<open>\<open>genres[genre] += 1\<close> on a \<open>defaultdict(int)\<close>: the dict keeps its keys in the order of
  their first insertion, so it is an association list.\<close>

fun increment :: "string \<Rightarrow> (string \<times> int) list \<Rightarrow> (string \<times> int) list" where
  "increment g [] = [(g, 1)]"
| "increment g ((h, c) # rest) =
     (if h = g then (h, c + 1) # rest else (h, c) # increment g rest)"

definition count_genres :: "artist list \<Rightarrow> (string \<times> int) list" where
  "count_genres its =
     foldl (\<lambda>genres artist. foldl (\<lambda>genres genre. increment genre genres) genres (a_genres artist))
       [] its"

text \<open>\<open>sorted(genres.items(), key=lambda item: item[1], reverse=True)\<close>: Python's sort is
  stable also with \<open>reverse=True\<close>, which is the stable ascending sort on the negated key.\<close>

definition sorted_reverse :: "(string \<times> int) list \<Rightarrow> (string \<times> int) list" where
  "sorted_reverse its = sort_key (\<lambda>item. - snd item) its"

subsection \<open>The two loops over the rooms\<close>

text \<open>The first statement of the cache-miss loop,
  \<open>if not Room.query.filter_by(id=room["id"]).first()\<close>: it adds the row by the type of the
  entry. The entry of a genre is stored under its \<open>name\<close>; a row with that key already
  there violates the primary key.\<close>

definition create_room :: "db \<Rightarrow> room_data \<Rightarrow> error + db" where
  "create_room d room =
     (if rooms d (rd_id room) = None then
        (if rd_type room = ''artist'' then
           (case rd_images room of
              None \<Rightarrow> Inl KeyError
            | Some imgs \<Rightarrow>
                Inr (d\<lparr>rooms := (rooms d)(rd_id room \<mapsto>
                       \<lparr> r_images = Some imgs, r_name = rd_name room,
                         r_room_type = ''artist'' \<rparr>)\<rparr>))
         else
           (if rooms d (rd_name room) = None then
              Inr (d\<lparr>rooms := (rooms d)(rd_name room \<mapsto>
                     \<lparr> r_images = None, r_name = rd_name room,
                       r_room_type = ''artist'' \<rparr>)\<rparr>)
            else Inl IntegrityError))
      else Inr d)"

text \<open>The loop of the cache-miss path: it creates the missing rooms and attaches the
  marshalled history to every entry.\<close>

fun ensure_rooms :: "db \<Rightarrow> room_data list \<Rightarrow> error + (room_data list \<times> db)" where
  "ensure_rooms d [] = Inr ([], d)"
| "ensure_rooms d (room # rest) =
     (case create_room d room of
        Inl e \<Rightarrow> Inl e
      | Inr d1 \<Rightarrow>
          (case rooms d1 (rd_id room) of
             None \<Rightarrow> Inl AttributeError
           | Some room_class \<Rightarrow>
               (case marshal_all d1 (room_messages d1 (rd_id room)) of
                  Inl e \<Rightarrow> Inl e
                | Inr ms \<Rightarrow>
                    (case ensure_rooms d1 rest of
                       Inl e \<Rightarrow> Inl e
                     | Inr (rest', d2) \<Rightarrow> Inr (room\<lparr>rd_messages := Some ms\<rparr> # rest', d2)))))"

text \<open>The loop of the cache-hit path over the four stored identifiers. \<open>json.loads\<close> of an
  absent \<open>images\<close> column raises, and the \<open>except\<close> leaves the key out.\<close>

fun load_rooms :: "db \<Rightarrow> string option list \<Rightarrow> error + room_data list" where
  "load_rooms d [] = Inr []"
| "load_rooms d (room_id # rest) =
     (case room_id of
        None \<Rightarrow> Inl AttributeError
      | Some rid \<Rightarrow>
          (case rooms d rid of
             None \<Rightarrow> Inl AttributeError
           | Some room \<Rightarrow>
               (case marshal_all d (room_messages d rid) of
                  Inl e \<Rightarrow> Inl e
                | Inr ms \<Rightarrow>
                    (case load_rooms d rest of
                       Inl e \<Rightarrow> Inl e
                     | Inr rest' \<Rightarrow>
                         Inr (\<lparr> rd_type = r_room_type room, rd_name = r_name room,
                                rd_id = rid, rd_images = r_images room,
                                rd_messages = Some ms \<rparr> # rest')))))"

subsection \<open>The handler\<close>

definition artist_room :: "artist \<Rightarrow> room_data" where
  "artist_room a =
     \<lparr> rd_type = ''artist'', rd_name = a_name a, rd_id = a_id a,
       rd_images = Some (a_images a), rd_messages = None \<rparr>"

definition genre_room :: "string \<times> int \<Rightarrow> room_data" where
  "genre_room item =
     \<lparr> rd_type = ''genre'', rd_name = fst item, rd_id = fst item,
       rd_images = None, rd_messages = None \<rparr>"

text \<open>Lines 201 to 218: the access token is renewed when it has expired.\<close>

definition refresh_access_token :: "clock \<Rightarrow> provider \<Rightarrow> User \<Rightarrow> User" where
  "refresh_access_token clk p user =
     (if u_access_token_expiry user < now_access clk then
        user\<lparr> u_access_token := td_access_token (p_token_data p),
              u_access_token_expiry :=
                timedelta_seconds (td_expires_in (p_token_data p)) + now_refresh clk \<rparr>
      else user)"

text \<open>Lines 267 to 269: midnight of today, plus one day.\<close>

definition new_rooms_expiry :: "clock \<Rightarrow> datetime" where
  "new_rooms_expiry clk = combine_time_min (today clk) + timedelta_days 1"

text \<open>The assignments to the user of lines 238, 239 and 264 to 267.\<close>

definition assign_rooms ::
  "User \<Rightarrow> artist \<Rightarrow> artist \<Rightarrow> string \<times> int \<Rightarrow> string \<times> int \<Rightarrow> datetime \<Rightarrow> User" where
  "assign_rooms user a0 a1 g0 g1 expiry =
     user\<lparr> u_artist_room_1 := Some (a_id a0),
           u_artist_room_2 := Some (a_id a1),
           u_genre_room_1 := Some (fst g0),
           u_genre_room_2 := Some (fst g1),
           u_rooms_expiry := Some expiry \<rparr>"

text \<open>The cache-miss branch of \<open>get_rooms\<close>, for the user \<open>user\<close> stored under \<open>uid\<close>. The
  patterns on the two lists are the index reads \<open>[0]\<close> and \<open>[1]\<close>, which raise
  \<open>IndexError\<close> out of range. An unhandled exception rolls the session back; a response
  commits it (\<open>SQLALCHEMY_COMMIT_ON_TEARDOWN\<close>), also the 204 one.\<close>

definition recompute_rooms ::
  "clock \<Rightarrow> provider \<Rightarrow> db \<Rightarrow> string \<Rightarrow> User \<Rightarrow> (error + response) \<times> db" where
  "recompute_rooms clk p d uid user =
     (let user1 = refresh_access_token clk p user;
          top = p_top_artists_data p
      in if ta_total top < 2 then
           (Inr (Plain ''Not enough data'' 204), d\<lparr>users := (users d)(uid \<mapsto> user1)\<rparr>)
         else
           (case ta_items top of
              [] \<Rightarrow> (Inl IndexError, d)
            | [a0] \<Rightarrow> (Inl IndexError, d)
            | a0 # a1 # _ \<Rightarrow>
                (case sorted_reverse (count_genres (ta_items top)) of
                   [] \<Rightarrow> (Inl IndexError, d)
                 | [g0] \<Rightarrow> (Inl IndexError, d)
                 | g0 # g1 # _ \<Rightarrow>
                     (let user2 = assign_rooms user1 a0 a1 g0 g1 (new_rooms_expiry clk)
                      in case ensure_rooms (d\<lparr>users := (users d)(uid \<mapsto> user2)\<rparr>)
                                [artist_room a0, artist_room a1, genre_room g0, genre_room g1] of
                           Inl e \<Rightarrow> (Inl e, d)
                         | Inr (rs, d') \<Rightarrow>
                             (Inr (Jsonify \<lparr> rj_rooms = rs,
                                             rj_expiry = epoch_seconds (new_rooms_expiry clk) \<rparr>),
                              d')))))"

text \<open>The cache-hit branch, with the final \<open>user.rooms_expiry.timestamp()\<close>.\<close>

definition cached_rooms :: "db \<Rightarrow> User \<Rightarrow> (error + response) \<times> db" where
  "cached_rooms d user =
     (case load_rooms d [u_artist_room_1 user, u_artist_room_2 user,
                         u_genre_room_1 user, u_genre_room_2 user] of
        Inl e \<Rightarrow> (Inl e, d)
      | Inr rs \<Rightarrow>
          (case u_rooms_expiry user of
             None \<Rightarrow> (Inl AttributeError, d)
           | Some expiry \<Rightarrow>
               (Inr (Jsonify \<lparr> rj_rooms = rs, rj_expiry = epoch_seconds expiry \<rparr>), d)))"

text \<open>The test \<open>(not user.rooms_expiry) or user.rooms_expiry < datetime.datetime.now()\<close>.\<close>

definition rooms_expired :: "clock \<Rightarrow> User \<Rightarrow> bool" where
  "rooms_expired clk user =
     (case u_rooms_expiry user of None \<Rightarrow> True | Some expiry \<Rightarrow> expiry < now_rooms clk)"

text \<open>The part of \<open>get_rooms\<close> after \<open>user = token.user\<close>.\<close>

definition get_rooms_user ::
  "clock \<Rightarrow> provider \<Rightarrow> db \<Rightarrow> string \<Rightarrow> User \<Rightarrow> (error + response) \<times> db" where
  "get_rooms_user clk p d uid user =
     (if rooms_expired clk user then recompute_rooms clk p d uid user
      else cached_rooms d user)"

text \<open>\<open>authorization\<close> is \<open>request.headers.get("Authorization")\<close>; \<open>Token.query.get(None)\<close>
  finds nothing.\<close>

definition get_rooms ::
  "clock \<Rightarrow> provider \<Rightarrow> db \<Rightarrow> string option \<Rightarrow> (error + response) \<times> db" where
  "get_rooms clk p d authorization =
     (case (case authorization of None \<Rightarrow> None | Some tid \<Rightarrow> tokens d tid) of
        None \<Rightarrow> (Inl (HTTPException 403), d)
      | Some token \<Rightarrow>
          if t_expiry token < now_token clk then (Inl (HTTPException 403), d)
          else
            (case users d (t_user_id token) of
               None \<Rightarrow> (Inl AttributeError, d)
             | Some user \<Rightarrow> get_rooms_user clk p d (t_user_id token) user))"

section \<open>The realtime handlers\<close>

text \<open>A connection: the attribute \<open>token\<close> of its session (absent until \<open>join\<close> sets it) and
  the channels it has entered with \<open>join_room\<close>.\<close>

record connection =
  session_token :: "string option"
  joined :: "string option list"

definition join :: "datetime \<Rightarrow> db \<Rightarrow> connection \<Rightarrow> string \<Rightarrow> (error + unit) \<times> connection" where
  "join now d c token_id =
     (case tokens d token_id of
        None \<Rightarrow> (Inl (ConnectionRefusedError ''authentication failed''), c)
      | Some token \<Rightarrow>
          if t_expiry token < now then
            (Inl (ConnectionRefusedError ''authentication failed''), c)
          else
            (case users d (t_user_id token) of
               None \<Rightarrow> (Inl AttributeError, c)
             | Some user \<Rightarrow>
                 (Inr (),
                  c\<lparr> session_token := Some token_id,
                     joined := joined c @ [u_artist_room_1 user, u_artist_room_2 user,
                                            u_genre_room_1 user, u_genre_room_2 user] \<rparr>)))"

text \<open>The identifier that SQLite gives the next row of the message table.\<close>

definition next_id :: "Message list \<Rightarrow> int" where
  "next_id ms = (if ms = [] then 1 else Max (set (map m_id ms)) + 1)"

text \<open>The outcome of \<open>message_created\<close>: the acknowledgement or the exception, the database,
  and what was emitted (the channel and the payload of the \<open>new message\<close> event). \<open>now\<close> is
  the reading of the clock that fills the \<open>timestamp\<close> column; \<open>room\<close> is the client's
  value, \<open>None\<close> for a JSON null. A message whose room does not exist violates the
  \<open>NOT NULL\<close> of \<open>room_id\<close>.\<close>

record post_outcome =
  po_result :: "error + string \<times> nat"
  po_db :: db
  po_emitted :: "(string \<times> message_json) option"

definition message_created :: "datetime \<Rightarrow> db \<Rightarrow> connection \<Rightarrow> string option \<Rightarrow> string \<Rightarrow> post_outcome" where
  "message_created now d c room body =
     (case session_token c of
        None \<Rightarrow> \<lparr> po_result = Inl AttributeError, po_db = d, po_emitted = None \<rparr>
      | Some token_id \<Rightarrow>
          (case tokens d token_id of
             None \<Rightarrow> \<lparr> po_result = Inl AttributeError, po_db = d, po_emitted = None \<rparr>
           | Some token \<Rightarrow>
               (case users d (t_user_id token) of
                  None \<Rightarrow> \<lparr> po_result = Inl AttributeError, po_db = d, po_emitted = None \<rparr>
                | Some user \<Rightarrow>
                    if room \<notin> set [u_artist_room_1 user, u_artist_room_2 user,
                                     u_genre_room_1 user, u_genre_room_2 user] then
                      \<lparr> po_result = Inr (''User does not have access to room'', 403),
                        po_db = d, po_emitted = None \<rparr>
                    else
                      (case (case room of None \<Rightarrow> None
                             | Some rid \<Rightarrow> (case rooms d rid of None \<Rightarrow> None | Some r \<Rightarrow> Some rid)) of
                         None \<Rightarrow> \<lparr> po_result = Inl IntegrityError, po_db = d, po_emitted = None \<rparr>
                       | Some rid \<Rightarrow>
                           (let message = \<lparr> m_id = next_id (messages d), m_body = body,
                                            m_timestamp = now, m_user_id = t_user_id token,
                                            m_room_id = rid \<rparr>;
                                d' = d\<lparr>messages := messages d @ [message]\<rparr>
                            in case marshal d' message of
                                 Inl e \<Rightarrow> \<lparr> po_result = Inl e, po_db = d', po_emitted = None \<rparr>
                               | Inr j \<Rightarrow>
                                   \<lparr> po_result = Inr (''Message sent'', 201), po_db = d',
                                     po_emitted = Some (rid, j) \<rparr>)))))"

section \<open>Concrete runs\<close>

text \<open>One user who has signed in and has no rooms yet, with her token. Times are
  microseconds, \<open>86400000000\<close> to the day; the token expires at the end of the seventh day.\<close>

definition ann :: User where
  "ann = \<lparr> u_display_name = Some ''Ann'', u_email = Some ''ann@example.org'',
           u_profile_picture = None, u_spotify_link = ''https://open.spotify.com/user/ann'',
           u_href = ''https://api.spotify.com/v1/users/ann'', u_refresh_token = ''refresh'',
           u_access_token = ''access'', u_access_token_expiry = 90000000000,
           u_artist_room_1 = None, u_artist_room_2 = None,
           u_genre_room_1 = None, u_genre_room_2 = None, u_rooms_expiry = None \<rparr>"

definition db0 :: db where
  "db0 = \<lparr> tokens = [''code'' \<mapsto> \<lparr> t_expiry = 600000000000, t_user_id = ''ann'' \<rparr>],
           users = [''ann'' \<mapsto> ann], rooms = Map.empty, messages = [] \<rparr>"

text \<open>The scenario of the specification: top artists \<open>A\<close> and \<open>B\<close>, the genre \<open>rock\<close> three
  times and \<open>pop\<close> once.\<close>

definition scenario :: provider where
  "scenario =
     \<lparr> p_token_data = \<lparr> td_access_token = ''access2'', td_expires_in = 3600 \<rparr>,
       p_top_artists_data = \<lparr> ta_total = 2, ta_items =
         [\<lparr> a_id = ''a1'', a_name = ''A'', a_images = [''a.png''],
            a_genres = [''rock'', ''rock''] \<rparr>,
          \<lparr> a_id = ''a2'', a_name = ''B'', a_images = [],
            a_genres = [''rock'', ''pop''] \<rparr>] \<rparr> \<rparr>"

text \<open>A provider that knows one top artist only, and one whose two artists share their
  single genre.\<close>

definition one_artist :: provider where
  "one_artist =
     \<lparr> p_token_data = \<lparr> td_access_token = ''access2'', td_expires_in = 3600 \<rparr>,
       p_top_artists_data = \<lparr> ta_total = 1, ta_items =
         [\<lparr> a_id = ''a1'', a_name = ''A'', a_images = [''a.png''],
            a_genres = [''rock'', ''pop''] \<rparr>] \<rparr> \<rparr>"

definition one_genre :: provider where
  "one_genre =
     \<lparr> p_token_data = \<lparr> td_access_token = ''access2'', td_expires_in = 3600 \<rparr>,
       p_top_artists_data = \<lparr> ta_total = 2, ta_items =
         [\<lparr> a_id = ''a1'', a_name = ''A'', a_images = [''a.png''], a_genres = [''rock''] \<rparr>,
          \<lparr> a_id = ''a2'', a_name = ''B'', a_images = [], a_genres = [''rock''] \<rparr>] \<rparr> \<rparr>"

text \<open>Three requests: in the morning and at noon of the first day, and at the very
  instant at which the token expires.\<close>

definition morning :: clock where
  "morning = \<lparr> now_token = 30000000000, now_rooms = 30000000001, now_access = 30000000002,
               now_refresh = 30000000003, today = 30000000004 \<rparr>"

definition noon :: clock where
  "noon = \<lparr> now_token = 43200000000, now_rooms = 43200000001, now_access = 43200000002,
            now_refresh = 43200000003, today = 43200000004 \<rparr>"

definition at_expiry :: clock where
  "at_expiry = \<lparr> now_token = 600000000000, now_rooms = 600000000000,
                 now_access = 600000000000, now_refresh = 600000000000,
                 today = 600000000000 \<rparr>"

text \<open>The database after the morning request with the scenario, and its response.\<close>

definition ann1 :: User where
  "ann1 = ann\<lparr> u_artist_room_1 := Some ''a1'', u_artist_room_2 := Some ''a2'',
                u_genre_room_1 := Some ''rock'', u_genre_room_2 := Some ''pop'',
                u_rooms_expiry := Some 86400000000 \<rparr>"

definition db1 :: db where
  "db1 = \<lparr> tokens = [''code'' \<mapsto> \<lparr> t_expiry = 600000000000, t_user_id = ''ann'' \<rparr>],
           users = [''ann'' \<mapsto> ann1],
           rooms = [''a1'' \<mapsto> \<lparr> r_images = Some [''a.png''], r_name = ''A'',
                                 r_room_type = ''artist'' \<rparr>,
                    ''a2'' \<mapsto> \<lparr> r_images = Some [], r_name = ''B'', r_room_type = ''artist'' \<rparr>,
                    ''rock'' \<mapsto> \<lparr> r_images = None, r_name = ''rock'',
                                   r_room_type = ''artist'' \<rparr>,
                    ''pop'' \<mapsto> \<lparr> r_images = None, r_name = ''pop'',
                                  r_room_type = ''artist'' \<rparr>],
           messages = [] \<rparr>"

definition first_listing :: rooms_json where
  "first_listing =
     \<lparr> rj_rooms =
         [\<lparr> rd_type = ''artist'', rd_name = ''A'', rd_id = ''a1'',
             rd_images = Some [''a.png''], rd_messages = Some [] \<rparr>,
          \<lparr> rd_type = ''artist'', rd_name = ''B'', rd_id = ''a2'',
             rd_images = Some [], rd_messages = Some [] \<rparr>,
          \<lparr> rd_type = ''genre'', rd_name = ''rock'', rd_id = ''rock'',
             rd_images = None, rd_messages = Some [] \<rparr>,
          \<lparr> rd_type = ''genre'', rd_name = ''pop'', rd_id = ''pop'',
             rd_images = None, rd_messages = Some [] \<rparr>],
       rj_expiry = 86400 \<rparr>"

text \<open>The same two databases when another user's recomputation has already created the
  room of artist \<open>a1\<close>, at a time when the provider gave the artist another name and
  picture.\<close>

definition db0_renamed :: db where
  "db0_renamed =
     db0\<lparr> rooms := [''a1'' \<mapsto> \<lparr> r_images = Some [''old.png''], r_name = ''Formerly A'',
                                  r_room_type = ''artist'' \<rparr>] \<rparr>"

definition db1_renamed :: db where
  "db1_renamed =
     db1\<lparr> rooms :=
            [''a1'' \<mapsto> \<lparr> r_images = Some [''old.png''], r_name = ''Formerly A'',
                             r_room_type = ''artist'' \<rparr>,
             ''a2'' \<mapsto> \<lparr> r_images = Some [], r_name = ''B'', r_room_type = ''artist'' \<rparr>,
             ''rock'' \<mapsto> \<lparr> r_images = None, r_name = ''rock'', r_room_type = ''artist'' \<rparr>,
             ''pop'' \<mapsto> \<lparr> r_images = None, r_name = ''pop'', r_room_type = ''artist'' \<rparr>] \<rparr>"

text \<open>The response to the request at noon on \<open>db1\<close>.\<close>

definition second_listing :: rooms_json where
  "second_listing =
     \<lparr> rj_rooms =
         [\<lparr> rd_type = ''artist'', rd_name = ''A'', rd_id = ''a1'',
             rd_images = Some [''a.png''], rd_messages = Some [] \<rparr>,
          \<lparr> rd_type = ''artist'', rd_name = ''B'', rd_id = ''a2'',
             rd_images = Some [], rd_messages = Some [] \<rparr>,
          \<lparr> rd_type = ''artist'', rd_name = ''rock'', rd_id = ''rock'',
             rd_images = None, rd_messages = Some [] \<rparr>,
          \<lparr> rd_type = ''artist'', rd_name = ''pop'', rd_id = ''pop'',
             rd_images = None, rd_messages = Some [] \<rparr>],
       rj_expiry = 86400 \<rparr>"

text \<open>Ann's post \<open>hello\<close> to the room \<open>rock\<close>, fifty thousand seconds into the first day, as
  it is marshalled.\<close>

definition hello :: message_json where
  "hello =
     \<lparr> mj_id = 1, mj_body = ''hello'', mj_timestamp = 50000, mj_room_id = ''rock'',
       mj_user = \<lparr> uj_id = ''ann'', uj_display_name = Some ''Ann'', uj_profile_picture = None,
                   uj_spotify_link = ''https://open.spotify.com/user/ann'' \<rparr> \<rparr>"

text \<open>Two connections: one on which no \<open>join\<close> has succeeded, and Ann's after her \<open>join\<close>
  on \<open>db1\<close>.\<close>

definition fresh_connection :: connection where
  "fresh_connection = \<lparr> session_token = None, joined = [] \<rparr>"

definition ann_connection :: connection where
  "ann_connection =
     \<lparr> session_token = Some ''code'',
       joined = [Some ''a1'', Some ''a2'', Some ''rock'', Some ''pop''] \<rparr>"

section \<open>Notions of the specification\<close>

text \<open>The rule of the Session Store as the code applies it: a token identifier is rejected
  when it has no row or its expiry lies strictly before the reading of the clock.\<close>

definition token_rejected :: "db \<Rightarrow> datetime \<Rightarrow> string \<Rightarrow> bool" where
  "token_rejected d now token_id =
     (case tokens d token_id of None \<Rightarrow> True | Some token \<Rightarrow> t_expiry token < now)"

text \<open>Every genre tag of the artists in the order of the two nested loops, how often a
  tag occurs, and the position at which it is first met.\<close>

definition all_genres :: "artist list \<Rightarrow> string list" where
  "all_genres its = concat (map a_genres its)"

definition frequency :: "string list \<Rightarrow> string \<Rightarrow> int" where
  "frequency gs g = int (count_list gs g)"

definition first_seen :: "string list \<Rightarrow> string \<Rightarrow> nat" where
  "first_seen gs g = length (takeWhile (\<lambda>h. h \<noteq> g) gs)"

text \<open>\<open>g\<close> ranks before \<open>h\<close>: it is more frequent, or as frequent and met earlier.\<close>

definition ranks_before :: "string list \<Rightarrow> string \<Rightarrow> string \<Rightarrow> bool" where
  "ranks_before gs g h \<longleftrightarrow>
     frequency gs h < frequency gs g \<or>
     (frequency gs h = frequency gs g \<and> first_seen gs g < first_seen gs h)"

section \<open>Auxiliary facts\<close>

subsection \<open>Marshalling and the two loops\<close>

lemma marshal_cong: "users d' = users d \<Longrightarrow> marshal d' m = marshal d m"
  by (simp add: marshal_def)

lemma marshal_all_cong: "users d' = users d \<Longrightarrow> marshal_all d' ms = marshal_all d ms"
proof (induction ms)
  case Nil
  show ?case by simp
next
  case (Cons m ms)
  from Cons have "marshal_all d' ms = marshal_all d ms" by blast
  moreover from Cons.prems have "marshal d' m = marshal d m" by (rule marshal_cong)
  ultimately show ?case by (simp split: sum.splits)
qed

lemma room_messages_cong: "messages d' = messages d \<Longrightarrow> room_messages d' rid = room_messages d rid"
  by (simp add: room_messages_def)

lemma marshal_not_403: "marshal d m \<noteq> Inl (HTTPException n)"
  by (simp add: marshal_def split: option.splits)

lemma marshal_all_not_403: "marshal_all d ms \<noteq> Inl (HTTPException n)"
proof (induction ms)
  case Nil
  show ?case by simp
next
  case (Cons m ms)
  show ?case
  proof (cases "marshal d m")
    case (Inl e)
    with marshal_not_403 [of d m n] show ?thesis by auto
  next
    case (Inr j)
    with Cons show ?thesis by (cases "marshal_all d ms") auto
  qed
qed

lemma create_room_not_403: "create_room d r \<noteq> Inl (HTTPException n)"
  by (simp add: create_room_def split: option.splits)

lemma create_room_frame:
  assumes "create_room d r = Inr d1"
  shows "users d1 = users d" and "messages d1 = messages d" and "tokens d1 = tokens d"
  using assms by (auto simp: create_room_def split: if_splits option.splits)

lemma create_room_keeps:
  assumes "create_room d r = Inr d1" and "rooms d k = Some x"
  shows "rooms d1 k = Some x"
  using assms by (auto simp: create_room_def split: if_splits option.splits)

lemma ensure_rooms_Cons_Inr:
  "ensure_rooms d (r # rs) = Inr (out, d2) \<longleftrightarrow>
     (\<exists>d1 rc ms rest'. create_room d r = Inr d1 \<and> rooms d1 (rd_id r) = Some rc \<and>
        marshal_all d1 (room_messages d1 (rd_id r)) = Inr ms \<and>
        ensure_rooms d1 rs = Inr (rest', d2) \<and> out = r\<lparr>rd_messages := Some ms\<rparr> # rest')"
  by (auto split: sum.splits option.splits prod.splits)

lemma ensure_rooms_Cons_Inl:
  "ensure_rooms d (r # rs) = Inl e \<Longrightarrow>
     create_room d r = Inl e \<or> e = AttributeError \<or>
     (\<exists>d1. marshal_all d1 (room_messages d1 (rd_id r)) = Inl e) \<or>
     (\<exists>d1. ensure_rooms d1 rs = Inl e)"
  by (auto split: sum.splits option.splits prod.splits)

lemma ensure_rooms_not_403:
  "ensure_rooms d rs \<noteq> Inl (HTTPException n)"
proof (induction rs arbitrary: d)
  case Nil
  show ?case by simp
next
  case (Cons r rs)
  show ?case
  proof
    assume "ensure_rooms d (r # rs) = Inl (HTTPException n)"
    from ensure_rooms_Cons_Inl [OF this] Cons.IH marshal_all_not_403 create_room_not_403
    show False by blast
  qed
qed

lemma load_rooms_Cons_Inl:
  "load_rooms d (r # rs) = Inl e \<Longrightarrow>
     e = AttributeError \<or> (\<exists>rid. marshal_all d (room_messages d rid) = Inl e) \<or>
     load_rooms d rs = Inl e"
  by (auto split: sum.splits option.splits prod.splits)

lemma load_rooms_not_403:
  "load_rooms d rs \<noteq> Inl (HTTPException n)"
proof (induction rs)
  case Nil
  show ?case by simp
next
  case (Cons r rs)
  show ?case
  proof
    assume "load_rooms d (r # rs) = Inl (HTTPException n)"
    from load_rooms_Cons_Inl [OF this] Cons.IH marshal_all_not_403
    show False by blast
  qed
qed

lemma ensure_rooms_frame:
  "ensure_rooms d rs = Inr (out, d2) \<Longrightarrow>
     users d2 = users d \<and> messages d2 = messages d \<and> tokens d2 = tokens d"
proof (induction rs arbitrary: d out)
  case Nil
  then show ?case by simp
next
  case (Cons r rs)
  from Cons.prems obtain d1 rest' where c: "create_room d r = Inr d1"
    and e: "ensure_rooms d1 rs = Inr (rest', d2)"
    unfolding ensure_rooms_Cons_Inr by blast
  from Cons.IH [OF e] create_room_frame [OF c] show ?case by simp
qed

lemma ensure_rooms_keeps:
  "ensure_rooms d rs = Inr (out, d2) \<Longrightarrow> rooms d k = Some x \<Longrightarrow> rooms d2 k = Some x"
proof (induction rs arbitrary: d out)
  case Nil
  then show ?case by simp
next
  case (Cons r rs)
  from Cons.prems(1) obtain d1 rest' where c: "create_room d r = Inr d1"
    and e: "ensure_rooms d1 rs = Inr (rest', d2)"
    unfolding ensure_rooms_Cons_Inr by blast
  from create_room_keeps [OF c Cons.prems(2)] have "rooms d1 k = Some x" .
  with Cons.IH [OF e] show ?case by simp
qed

lemma ensure_rooms_present:
  "ensure_rooms d rs = Inr (out, d2) \<Longrightarrow> r \<in> set rs \<Longrightarrow>
     (\<exists>rc. rooms d2 (rd_id r) = Some rc) \<and>
     (\<exists>ms. marshal_all d (room_messages d (rd_id r)) = Inr ms)"
proof (induction rs arbitrary: d out)
  case Nil
  then show ?case by simp
next
  case (Cons r' rs)
  from Cons.prems(1) obtain d1 rc ms rest' where c: "create_room d r' = Inr d1"
    and k: "rooms d1 (rd_id r') = Some rc"
    and m: "marshal_all d1 (room_messages d1 (rd_id r')) = Inr ms"
    and e: "ensure_rooms d1 rs = Inr (rest', d2)"
    unfolding ensure_rooms_Cons_Inr by blast
  have same: "marshal_all d1 (room_messages d1 i) = marshal_all d (room_messages d i)" for i
    using create_room_frame [OF c] marshal_all_cong [of d1 d] room_messages_cong [of d1 d]
    by simp
  show ?case
  proof (cases "r = r'")
    case True
    with ensure_rooms_keeps [OF e k] m same show ?thesis by auto
  next
    case False
    with Cons.prems(2) have "r \<in> set rs" by simp
    from Cons.IH [OF e this] same show ?thesis by simp
  qed
qed

lemma load_rooms_Cons_Inr:
  "load_rooms d (i # ids) = Inr out \<longleftrightarrow>
     (\<exists>rid room ms rest'. i = Some rid \<and> rooms d rid = Some room \<and>
        marshal_all d (room_messages d rid) = Inr ms \<and> load_rooms d ids = Inr rest' \<and>
        out = \<lparr> rd_type = r_room_type room, rd_name = r_name room, rd_id = rid,
                rd_images = r_images room, rd_messages = Some ms \<rparr> # rest')"
  by (auto split: sum.splits option.splits)

lemma load_rooms_total:
  "(\<forall>i \<in> set ids. \<exists>rid room ms. i = Some rid \<and> rooms d rid = Some room \<and>
        marshal_all d (room_messages d rid) = Inr ms) \<Longrightarrow>
   \<exists>out. load_rooms d ids = Inr out"
proof (induction ids)
  case Nil
  show ?case by simp
next
  case (Cons i ids)
  then obtain rest' where "load_rooms d ids = Inr rest'" by auto
  moreover from Cons.prems obtain rid room ms where "i = Some rid" "rooms d rid = Some room"
    "marshal_all d (room_messages d rid) = Inr ms" by auto
  ultimately show ?case unfolding load_rooms_Cons_Inr by blast
qed

subsection \<open>Counting and ranking the genres\<close>

lemma foldl_nested:
  "foldl (\<lambda>acc a. foldl f acc (g a)) acc its = foldl f acc (concat (map g its))"
  by (induction its arbitrary: acc) simp_all

lemma count_genres_flat:
  "count_genres its = foldl (\<lambda>genres genre. increment genre genres) [] (all_genres its)"
  by (simp add: count_genres_def all_genres_def foldl_nested)

lemma increment_map:
  "distinct D \<Longrightarrow>
     increment g (map (\<lambda>h. (h, c h)) D) =
       map (\<lambda>h. (h, if h = g then c h + 1 else c h)) D @ (if g \<in> set D then [] else [(g, 1)])"
  by (induction D) auto

lemma frequency_snoc:
  "frequency (gs @ [x]) h = (if h = x then frequency gs h + 1 else frequency gs h)"
  by (simp add: frequency_def)

lemma frequency_absent: "x \<notin> set gs \<Longrightarrow> frequency gs x = 0"
  by (simp add: frequency_def)

lemma tally:
  "foldl (\<lambda>genres genre. increment genre genres) [] gs =
     map (\<lambda>g. (g, frequency gs g)) (rev (remdups (rev gs)))"
proof (induction gs rule: rev_induct)
  case Nil
  show ?case by simp
next
  case (snoc x gs)
  let ?F = "rev (remdups (rev gs))"
  have d: "distinct ?F" by simp
  have s: "set ?F = set gs" by simp
  have "foldl (\<lambda>genres genre. increment genre genres) [] (gs @ [x]) =
          increment x (map (\<lambda>g. (g, frequency gs g)) ?F)"
    using snoc.IH by simp
  also have "\<dots> = map (\<lambda>h. (h, frequency (gs @ [x]) h)) ?F @
                    (if x \<in> set gs then [] else [(x, 1)])"
    unfolding increment_map [OF d] s frequency_snoc ..
  also have "\<dots> = map (\<lambda>g. (g, frequency (gs @ [x]) g)) (rev (remdups (rev (gs @ [x]))))"
    by (simp add: frequency_snoc frequency_absent)
  finally show ?case .
qed

lemma first_seen_snoc_old: "h \<in> set gs \<Longrightarrow> first_seen (gs @ [x]) h = first_seen gs h"
  by (simp add: first_seen_def)

lemma first_seen_less: "h \<in> set gs \<Longrightarrow> first_seen gs h < length gs"
  unfolding first_seen_def by (induction gs) auto

lemma first_seen_snoc_new: "x \<notin> set gs \<Longrightarrow> first_seen (gs @ [x]) x = length gs"
proof -
  assume "x \<notin> set gs"
  then have "takeWhile (\<lambda>h. h \<noteq> x) (gs @ [x]) = gs @ takeWhile (\<lambda>h. h \<noteq> x) [x]"
    by (intro takeWhile_append2) auto
  then show ?thesis by (simp add: first_seen_def)
qed

lemma firsts_sorted:
  "sorted_wrt (\<lambda>a b. first_seen gs a < first_seen gs b) (rev (remdups (rev gs)))"
proof (induction gs rule: rev_induct)
  case Nil
  show ?case by simp
next
  case (snoc x gs)
  let ?F = "rev (remdups (rev gs))"
  have old: "sorted_wrt (\<lambda>a b. first_seen (gs @ [x]) a < first_seen (gs @ [x]) b) ?F"
    by (rule sorted_wrt_mono_rel [OF _ snoc.IH]) (simp add: first_seen_snoc_old)
  show ?case
  proof (cases "x \<in> set gs")
    case True
    with old show ?thesis by simp
  next
    case False
    have "\<forall>a \<in> set ?F. first_seen (gs @ [x]) a < first_seen (gs @ [x]) x"
      using False by (simp add: first_seen_snoc_old first_seen_snoc_new first_seen_less)
    with old False show ?thesis by (simp add: sorted_wrt_append)
  qed
qed

lemma insort_key_lex:
  assumes "sorted_wrt (\<lambda>a b. f a < f b \<or> (f a = f b \<and> s a < s b)) ys"
    and "\<forall>y \<in> set ys. s x < s y"
  shows "sorted_wrt (\<lambda>a b. f a < f b \<or> (f a = f b \<and> s a < s b)) (insort_key f x ys)"
  using assms
proof (induction ys)
  case Nil
  show ?case by simp
next
  case (Cons y ys)
  show ?case
  proof (cases "f x \<le> f y")
    case True
    have "\<forall>z \<in> set (y # ys). f x < f z \<or> (f x = f z \<and> s x < s z)"
      using True Cons.prems by fastforce
    with True Cons.prems(1) show ?thesis by simp
  next
    case False
    have "sorted_wrt (\<lambda>a b. f a < f b \<or> (f a = f b \<and> s a < s b)) (insort_key f x ys)"
      using Cons by simp
    with False Cons.prems(1) show ?thesis by (auto simp: set_insort_key)
  qed
qed

lemma sort_key_lex:
  fixes f :: "'a \<Rightarrow> int"
  assumes "sorted_wrt (\<lambda>a b. s a < (s b :: nat)) xs"
  shows "sorted_wrt (\<lambda>a b. f a < f b \<or> (f a = f b \<and> s a < s b)) (sort_key f xs)"
  using assms
proof (induction xs)
  case Nil
  show ?case by simp
next
  case (Cons x xs)
  from Cons have "sorted_wrt (\<lambda>a b. f a < f b \<or> (f a = f b \<and> s a < s b)) (sort_key f xs)"
    by simp
  moreover from Cons.prems have "\<forall>y \<in> set (sort_key f xs). s x < s y" by simp
  ultimately show ?case by (simp add: insort_key_lex)
qed

lemma count_genres_table:
  "count_genres its =
     map (\<lambda>g. (g, frequency (all_genres its) g)) (rev (remdups (rev (all_genres its))))"
  by (simp only: count_genres_flat tally)

lemma set_ranking:
  "set (sorted_reverse (count_genres its)) =
     (\<lambda>g. (g, frequency (all_genres its) g)) ` set (all_genres its)"
  by (simp add: sorted_reverse_def count_genres_table)

lemma length_ranking:
  "length (sorted_reverse (count_genres its)) = card (set (all_genres its))"
proof -
  have "length (sorted_reverse (count_genres its)) = length (remdups (rev (all_genres its)))"
    by (simp add: sorted_reverse_def count_genres_table)
  also have "\<dots> = card (set (rev (all_genres its)))"
    by (rule length_remdups_card_conv)
  finally show ?thesis by simp
qed

lemma ranking_sorted:
  "sorted_wrt (\<lambda>a b. ranks_before (all_genres its) (fst a) (fst b))
     (sorted_reverse (count_genres its))"
proof -
  let ?gs = "all_genres its"
  let ?f = "\<lambda>item :: string \<times> int. - snd item"
  let ?s = "\<lambda>item :: string \<times> int. first_seen ?gs (fst item)"
  have "sorted_wrt (\<lambda>a b. ?s a < ?s b) (count_genres its)"
    using firsts_sorted [of ?gs] by (simp add: count_genres_table sorted_wrt_map)
  then have lex: "sorted_wrt (\<lambda>a b. ?f a < ?f b \<or> (?f a = ?f b \<and> ?s a < ?s b))
                    (sorted_reverse (count_genres its))"
    unfolding sorted_reverse_def by (rule sort_key_lex)
  show ?thesis
  proof (rule sorted_wrt_mono_rel [OF _ lex])
    fix a b
    assume "a \<in> set (sorted_reverse (count_genres its))"
      and "b \<in> set (sorted_reverse (count_genres its))"
      and "?f a < ?f b \<or> (?f a = ?f b \<and> ?s a < ?s b)"
    then show "ranks_before ?gs (fst a) (fst b)"
      unfolding set_ranking ranks_before_def by auto
  qed
qed

lemma ranking_mem1:
  "x \<in> set (sorted_reverse (count_genres its)) \<Longrightarrow> fst x \<in> set (all_genres its)"
  by (auto simp: set_ranking)

lemma ranking_mem2:
  "g \<in> set (all_genres its) \<Longrightarrow>
     (g, frequency (all_genres its) g) \<in> set (sorted_reverse (count_genres its))"
  by (simp add: set_ranking)

lemma top_two:
  assumes "sorted_reverse (count_genres its) = g0 # g1 # rest"
  shows "fst g0 \<in> set (all_genres its)"
    and "fst g1 \<in> set (all_genres its)"
    and "ranks_before (all_genres its) (fst g0) (fst g1)"
    and "\<forall>g \<in> set (all_genres its). g \<noteq> fst g0 \<longrightarrow> ranks_before (all_genres its) (fst g0) g"
    and "\<forall>g \<in> set (all_genres its). g \<noteq> fst g0 \<longrightarrow> g \<noteq> fst g1 \<longrightarrow>
           ranks_before (all_genres its) (fst g1) g"
proof -
  let ?gs = "all_genres its"
  have mem1: "fst x \<in> set ?gs" if "x \<in> set (g0 # g1 # rest)" for x
    using that ranking_mem1 [of x its] by (simp add: assms)
  have mem2: "(g, frequency ?gs g) \<in> set (g0 # g1 # rest)" if "g \<in> set ?gs" for g
    using that ranking_mem2 [of g its] by (simp add: assms)
  have srt: "sorted_wrt (\<lambda>a b. ranks_before ?gs (fst a) (fst b)) (g0 # g1 # rest)"
    using ranking_sorted [of its] assms by simp
  show "fst g0 \<in> set ?gs" by (rule mem1) simp
  show "fst g1 \<in> set ?gs" by (rule mem1) simp
  from srt show "ranks_before ?gs (fst g0) (fst g1)" by simp
  show "\<forall>g \<in> set ?gs. g \<noteq> fst g0 \<longrightarrow> ranks_before ?gs (fst g0) g"
  proof (intro ballI impI)
    fix g assume "g \<in> set ?gs" and "g \<noteq> fst g0"
    with mem2 [of g] have "(g, frequency ?gs g) \<in> set (g1 # rest)" by auto
    with srt show "ranks_before ?gs (fst g0) g" by fastforce
  qed
  show "\<forall>g \<in> set ?gs. g \<noteq> fst g0 \<longrightarrow> g \<noteq> fst g1 \<longrightarrow> ranks_before ?gs (fst g1) g"
  proof (intro ballI impI)
    fix g assume "g \<in> set ?gs" and "g \<noteq> fst g0" and "g \<noteq> fst g1"
    with mem2 [of g] have "(g, frequency ?gs g) \<in> set rest" by auto
    with srt show "ranks_before ?gs (fst g1) g" by fastforce
  qed
qed

subsection \<open>The branches of \<open>get_rooms\<close>\<close>

lemma recompute_rooms_not_403:
  "fst (recompute_rooms clk p d uid user) \<noteq> Inl (HTTPException n)"
  using ensure_rooms_not_403
  by (auto simp: recompute_rooms_def Let_def simp del: ensure_rooms.simps
      split: list.splits sum.splits prod.splits)

lemma cached_rooms_not_403:
  "fst (cached_rooms d user) \<noteq> Inl (HTTPException n)"
  using load_rooms_not_403
  by (auto simp: cached_rooms_def simp del: load_rooms.simps split: sum.splits option.splits)

lemma get_rooms_user_not_403:
  "fst (get_rooms_user clk p d uid user) \<noteq> Inl (HTTPException n)"
  by (simp add: get_rooms_user_def recompute_rooms_not_403 cached_rooms_not_403)

lemma recompute_rooms_Jsonify:
  assumes "recompute_rooms clk p d uid user = (Inr (Jsonify rj), d')"
  shows "\<exists>a0 a1 as g0 g1 gs.
    \<not> ta_total (p_top_artists_data p) < 2 \<and>
    ta_items (p_top_artists_data p) = a0 # a1 # as \<and>
    sorted_reverse (count_genres (ta_items (p_top_artists_data p))) = g0 # g1 # gs \<and>
    ensure_rooms
      (d\<lparr>users := (users d)(uid \<mapsto>
           assign_rooms (refresh_access_token clk p user) a0 a1 g0 g1 (new_rooms_expiry clk))\<rparr>)
      [artist_room a0, artist_room a1, genre_room g0, genre_room g1] = Inr (rj_rooms rj, d') \<and>
    rj_expiry rj = epoch_seconds (new_rooms_expiry clk)"
  using assms
  by (auto simp: recompute_rooms_def Let_def simp del: ensure_rooms.simps
      split: if_splits list.splits sum.splits prod.splits)

lemma ensure_rooms_ids:
  "ensure_rooms d rs = Inr (out, d2) \<Longrightarrow>
     map rd_id out = map rd_id rs \<and> map rd_type out = map rd_type rs \<and>
     map rd_name out = map rd_name rs \<and> map rd_images out = map rd_images rs"
proof (induction rs arbitrary: d out)
  case Nil
  then show ?case by simp
next
  case (Cons r rs)
  from Cons.prems obtain d1 ms rest' where e: "ensure_rooms d1 rs = Inr (rest', d2)"
    and o: "out = r\<lparr>rd_messages := Some ms\<rparr> # rest'"
    unfolding ensure_rooms_Cons_Inr by blast
  from Cons.IH [OF e] o show ?case by simp
qed

lemma load_rooms_ids:
  "load_rooms d ids = Inr out \<Longrightarrow> map (\<lambda>r. Some (rd_id r)) out = ids"
proof (induction ids arbitrary: out)
  case Nil
  then show ?case by simp
next
  case (Cons i ids)
  from Cons.prems obtain rid and room :: Room and ms rest' where "i = Some rid"
    and l: "load_rooms d ids = Inr rest'"
    and "out = \<lparr> rd_type = r_room_type room, rd_name = r_name room, rd_id = rid,
                rd_images = r_images room, rd_messages = Some ms \<rparr> # rest'"
    unfolding load_rooms_Cons_Inr by blast
  with Cons.IH [OF l] show ?case by simp
qed

lemma load_after_ensure:
  assumes ens: "ensure_rooms ds rs = Inr (out1, d')"
  shows "\<exists>out. load_rooms d' (map (\<lambda>r. Some (rd_id r)) rs) = Inr out \<and>
               map rd_id out = map rd_id out1"
proof -
  have fr: "users d' = users ds" "messages d' = messages ds"
    using ensure_rooms_frame [OF ens] by simp_all
  have same: "marshal_all d' (room_messages d' i) = marshal_all ds (room_messages ds i)" for i
    unfolding marshal_all_cong [OF fr(1)] room_messages_cong [OF fr(2)] ..
  have "\<forall>i \<in> set (map (\<lambda>r. Some (rd_id r)) rs). \<exists>rid room ms. i = Some rid \<and>
          rooms d' rid = Some room \<and> marshal_all d' (room_messages d' rid) = Inr ms"
  proof
    fix i assume "i \<in> set (map (\<lambda>r. Some (rd_id r)) rs)"
    then obtain r where r: "r \<in> set rs" and i: "i = Some (rd_id r)" by auto
    from ensure_rooms_present [OF ens r] obtain rc ms where "rooms d' (rd_id r) = Some rc"
      and "marshal_all ds (room_messages ds (rd_id r)) = Inr ms" by blast
    with i show "\<exists>rid room ms. i = Some rid \<and>
          rooms d' rid = Some room \<and> marshal_all d' (room_messages d' rid) = Inr ms"
      unfolding same by blast
  qed
  from load_rooms_total [OF this] obtain out
    where l: "load_rooms d' (map (\<lambda>r. Some (rd_id r)) rs) = Inr out" by blast
  have "map Some (map rd_id out) = map Some (map rd_id rs)"
    using load_rooms_ids [OF l] by (simp add: comp_def)
  then have "map rd_id out = map rd_id rs"
    by (simp only: inj_map_eq_map [OF inj_Some])
  with ensure_rooms_ids [OF ens] l show ?thesis by simp
qed

lemma ensure_rooms_out:
  "ensure_rooms d rs = Inr (out, d2) \<Longrightarrow>
     list_all2 (\<lambda>r r'. \<exists>ms. marshal_all d (room_messages d (rd_id r)) = Inr ms \<and>
                          r' = r\<lparr>rd_messages := Some ms\<rparr>) rs out"
proof (induction rs arbitrary: d out)
  case Nil
  then show ?case by simp
next
  case (Cons r rs)
  from Cons.prems(1) obtain d1 rc ms rest' where c: "create_room d r = Inr d1"
    and m: "marshal_all d1 (room_messages d1 (rd_id r)) = Inr ms"
    and e: "ensure_rooms d1 rs = Inr (rest', d2)"
    and o: "out = r\<lparr>rd_messages := Some ms\<rparr> # rest'"
    unfolding ensure_rooms_Cons_Inr by blast
  have same: "marshal_all d1 (room_messages d1 i) = marshal_all d (room_messages d i)" for i
    using create_room_frame [OF c] marshal_all_cong [of d1 d] room_messages_cong [of d1 d]
    by simp
  from Cons.IH [OF e] m o show ?case
    unfolding same by simp
qed

lemma load_rooms_out:
  "load_rooms d ids = Inr out \<Longrightarrow>
     list_all2 (\<lambda>i r'. \<exists>room ms. i = Some (rd_id r') \<and> rooms d (rd_id r') = Some room \<and>
        rd_type r' = r_room_type room \<and> rd_name r' = r_name room \<and>
        rd_images r' = r_images room \<and> rd_messages r' = Some ms \<and>
        marshal_all d (room_messages d (rd_id r')) = Inr ms) ids out"
proof (induction ids arbitrary: out)
  case Nil
  then show ?case by simp
next
  case (Cons i ids)
  from Cons.prems obtain rid room ms rest' where "i = Some rid" "rooms d rid = Some room"
    "marshal_all d (room_messages d rid) = Inr ms" and l: "load_rooms d ids = Inr rest'"
    and "out = \<lparr> rd_type = r_room_type room, rd_name = r_name room, rd_id = rid,
                rd_images = r_images room, rd_messages = Some ms \<rparr> # rest'"
    unfolding load_rooms_Cons_Inr by blast
  with Cons.IH [OF l] show ?case by simp
qed

lemma create_room_new:
  assumes "create_room d r = Inr d1" and "rooms d (rd_id r) = None"
    and "rd_type r \<noteq> ''artist'' \<longrightarrow> rd_name r = rd_id r"
  shows "rooms d1 (rd_id r) =
           Some \<lparr> r_images = (if rd_type r = ''artist'' then rd_images r else None),
                  r_name = rd_name r, r_room_type = ''artist'' \<rparr>"
    and "\<forall>k. k \<noteq> rd_id r \<longrightarrow> rooms d1 k = rooms d k"
  using assms by (auto simp: create_room_def split: if_splits option.splits)

lemma ensure_rooms_new:
  assumes "ensure_rooms d rs = Inr (out, d2)"
    and "distinct (map rd_id rs)"
    and "\<forall>r \<in> set rs. rd_type r \<noteq> ''artist'' \<longrightarrow> rd_name r = rd_id r"
    and "r \<in> set rs" and "rooms d (rd_id r) = None"
  shows "rooms d2 (rd_id r) =
           Some \<lparr> r_images = (if rd_type r = ''artist'' then rd_images r else None),
                  r_name = rd_name r, r_room_type = ''artist'' \<rparr>"
  using assms
proof (induction rs arbitrary: d out)
  case Nil
  then show ?case by simp
next
  case (Cons r' rs)
  from Cons.prems(1) obtain d1 rest' where c: "create_room d r' = Inr d1"
    and e: "ensure_rooms d1 rs = Inr (rest', d2)"
    unfolding ensure_rooms_Cons_Inr by blast
  show ?case
  proof (cases "r = r'")
    case True
    with Cons.prems(3,5) create_room_new(1) [OF c] have
      "rooms d1 (rd_id r) =
           Some \<lparr> r_images = (if rd_type r = ''artist'' then rd_images r else None),
                  r_name = rd_name r, r_room_type = ''artist'' \<rparr>"
      by simp
    from ensure_rooms_keeps [OF e this] show ?thesis .
  next
    case False
    with Cons.prems(4) have in_rs: "r \<in> set rs" by simp
    with Cons.prems(2) have ne: "rd_id r \<noteq> rd_id r'" by (metis distinct.simps(2) imageI list.simps(9) set_map)
    have "rooms d1 (rd_id r) = None"
    proof (cases "rooms d (rd_id r') = None")
      case True
      from create_room_new(2) [OF c True] Cons.prems(3) ne Cons.prems(5)
      show ?thesis by simp
    next
      case False
      with c have "d1 = d" by (simp add: create_room_def)
      with Cons.prems(5) show ?thesis by simp
    qed
    with Cons.IH [OF e] Cons.prems(2,3) in_rs show ?thesis by simp
  qed
qed

lemma load_agrees_with_ensure:
  assumes ens: "ensure_rooms ds rs = Inr (out1, d')"
    and dist: "distinct (map rd_id rs)"
    and names: "\<forall>r \<in> set rs. rd_type r \<noteq> ''artist'' \<longrightarrow> rd_name r = rd_id r"
    and l: "load_rooms d' (map (\<lambda>r. Some (rd_id r)) rs) = Inr out'"
  shows "list_all2 (\<lambda>r r'. rd_id r' = rd_id r \<and> rd_messages r' = rd_messages r \<and>
            (rooms ds (rd_id r) = None \<longrightarrow>
               rd_name r' = rd_name r \<and>
               (rd_type r = ''artist'' \<longrightarrow>
                  rd_type r' = ''artist'' \<and> rd_images r' = rd_images r))) out1 out'"
proof -
  have fr: "users d' = users ds" "messages d' = messages ds"
    using ensure_rooms_frame [OF ens] by simp_all
  have same: "marshal_all d' (room_messages d' i) = marshal_all ds (room_messages ds i)" for i
    unfolding marshal_all_cong [OF fr(1)] room_messages_cong [OF fr(2)] ..
  note A = ensure_rooms_out [OF ens]
  note B = load_rooms_out [OF l]
  have len1: "length out1 = length rs"
    using A by (simp add: list_all2_lengthD)
  have len2: "length out' = length rs"
    using B by (auto dest: list_all2_lengthD)
  show ?thesis
    unfolding list_all2_conv_all_nth
  proof (intro conjI allI impI)
    show "length out1 = length out'" using len1 len2 by simp
  next
    fix n assume n: "n < length out1"
    let ?r = "rs ! n" and ?o = "out1 ! n" and ?r' = "out' ! n"
    from n len1 have nr: "n < length rs" by simp
    then have mem: "?r \<in> set rs" by simp
    from A nr obtain ms where m: "marshal_all ds (room_messages ds (rd_id ?r)) = Inr ms"
      and o: "?o = ?r\<lparr>rd_messages := Some ms\<rparr>"
      unfolding list_all2_conv_all_nth by blast
    from B nr obtain room ms' where i: "Some (rd_id ?r) = Some (rd_id ?r')"
      and k: "rooms d' (rd_id ?r') = Some room"
      and f: "rd_type ?r' = r_room_type room" "rd_name ?r' = r_name room"
        "rd_images ?r' = r_images room"
      and m': "rd_messages ?r' = Some ms'"
        "marshal_all d' (room_messages d' (rd_id ?r')) = Inr ms'"
      unfolding list_all2_conv_all_nth by (auto simp: nth_map)
    from i have id: "rd_id ?r' = rd_id ?r" by simp
    from m m' same [of "rd_id ?r"] id have ms: "ms' = ms" by simp
    show "rd_id ?r' = rd_id ?o" using id o by simp
    show "rd_messages ?r' = rd_messages ?o" using m'(1) ms o by simp
    assume "rooms ds (rd_id ?o) = None"
    then have "rooms ds (rd_id ?r) = None" using o by simp
    from ensure_rooms_new [OF ens dist names mem this] k id
    have room: "room = \<lparr> r_images = (if rd_type ?r = ''artist'' then rd_images ?r else None),
                         r_name = rd_name ?r, r_room_type = ''artist'' \<rparr>"
      by simp
    show "rd_name ?r' = rd_name ?o" using f(2) room o by simp
    assume "rd_type ?o = ''artist''"
    then have "rd_type ?r = ''artist''" using o by simp
    then show "rd_type ?r' = ''artist''" and "rd_images ?r' = rd_images ?o"
      using f room o by simp_all
  qed
qed

lemma get_rooms_recompute:
  assumes "tokens d token_id = Some token"
    and "\<not> t_expiry token < now_token clk"
    and "users d (t_user_id token) = Some user"
    and "rooms_expired clk user"
  shows "get_rooms clk p d (Some token_id) = recompute_rooms clk p d (t_user_id token) user"
  using assms by (simp add: get_rooms_def get_rooms_user_def)

lemma get_rooms_cached:
  assumes "tokens d token_id = Some token"
    and "\<not> t_expiry token < now_token clk"
    and "users d (t_user_id token) = Some user"
    and "\<not> rooms_expired clk user"
  shows "get_rooms clk p d (Some token_id) = cached_rooms d user"
  using assms by (simp add: get_rooms_def get_rooms_user_def)

lemma new_rooms_expiry_midnight:
  "new_rooms_expiry clk mod microseconds_per_day = 0"
  "today clk < new_rooms_expiry clk"
  "new_rooms_expiry clk \<le> today clk + microseconds_per_day"
proof -
  have pos: "0 < microseconds_per_day"
    by (simp add: microseconds_per_day_def microseconds_per_second_def)
  have eq: "new_rooms_expiry clk =
              today clk - today clk mod microseconds_per_day + microseconds_per_day"
    by (simp add: new_rooms_expiry_def combine_time_min_def timedelta_days_def
        minus_mod_eq_div_mult)
  show "new_rooms_expiry clk mod microseconds_per_day = 0"
    by (simp add: new_rooms_expiry_def combine_time_min_def timedelta_days_def)
  from pos have "0 \<le> today clk mod microseconds_per_day"
    and "today clk mod microseconds_per_day < microseconds_per_day"
    by simp_all
  then show "today clk < new_rooms_expiry clk"
    and "new_rooms_expiry clk \<le> today clk + microseconds_per_day"
    unfolding eq by linarith+
qed

subsection \<open>\<open>message_created\<close>\<close>

lemma marshal_all_snoc:
  "marshal_all d (ms @ [m]) =
     (case marshal_all d ms of
        Inl e \<Rightarrow> Inl e
      | Inr js \<Rightarrow> (case marshal d m of Inl e \<Rightarrow> Inl e | Inr j \<Rightarrow> Inr (js @ [j])))"
  by (induction ms) (simp_all split: sum.splits)

lemma message_created_sent:
  assumes "po_result (message_created now d c room body) = Inr (''Message sent'', 201)"
  shows "\<exists>rid token_id token user.
           room = Some rid \<and> session_token c = Some token_id \<and>
           tokens d token_id = Some token \<and> users d (t_user_id token) = Some user \<and>
           message_created now d c room body =
             \<lparr> po_result = Inr (''Message sent'', 201),
               po_db = d\<lparr>messages := messages d @
                   [\<lparr> m_id = next_id (messages d), m_body = body, m_timestamp = now,
                      m_user_id = t_user_id token, m_room_id = rid \<rparr>]\<rparr>,
               po_emitted = Some (rid,
                 \<lparr> mj_id = next_id (messages d), mj_body = body,
                   mj_timestamp = epoch_seconds now, mj_room_id = rid,
                   mj_user = \<lparr> uj_id = t_user_id token,
                               uj_display_name = u_display_name user,
                               uj_profile_picture = u_profile_picture user,
                               uj_spotify_link = u_spotify_link user \<rparr> \<rparr>) \<rparr>"
proof -
  from assms obtain token_id where s: "session_token c = Some token_id"
    by (cases "session_token c") (simp_all add: message_created_def)
  with assms obtain token where t: "tokens d token_id = Some token"
    by (cases "tokens d token_id") (simp_all add: message_created_def)
  with assms s obtain user where u: "users d (t_user_id token) = Some user"
    by (cases "users d (t_user_id token)") (simp_all add: message_created_def)
  have m: "room \<in> set [u_artist_room_1 user, u_artist_room_2 user,
                         u_genre_room_1 user, u_genre_room_2 user]"
  proof (rule ccontr)
    assume "room \<notin> set [u_artist_room_1 user, u_artist_room_2 user,
                          u_genre_room_1 user, u_genre_room_2 user]"
    with s t u have "po_result (message_created now d c room body) =
                       Inr (''User does not have access to room'', 403)"
      by (simp add: message_created_def)
    with assms show False by simp
  qed
  from assms s t u m obtain rid where r: "room = Some rid"
    by (cases room) (simp_all add: message_created_def del: set_simps)
  with assms s t u m obtain rc where k: "rooms d rid = Some rc"
    by (cases "rooms d rid") (simp_all add: message_created_def del: set_simps)
  from s t u m r k show ?thesis
    by (simp add: message_created_def Let_def marshal_def del: set_simps)
qed

subsection \<open>The concrete runs\<close>

lemmas run_defs =
  get_rooms_def get_rooms_user_def rooms_expired_def recompute_rooms_def cached_rooms_def
  create_room_def artist_room_def genre_room_def marshal_def room_messages_def
  assign_rooms_def refresh_access_token_def new_rooms_expiry_def combine_time_min_def
  timedelta_days_def timedelta_seconds_def microseconds_per_day_def
  microseconds_per_second_def epoch_seconds_def Let_def

lemma run_morning:
  "get_rooms morning scenario db0 (Some ''code'') = (Inr (Jsonify first_listing), db1)"
  by (simp add: run_defs scenario_def count_genres_def sorted_reverse_def
      db0_def db1_def ann_def ann1_def first_listing_def morning_def)

section \<open>Token resolution\<close>

text \<open>
  Claim C1, as the code has it. The HTTP listing and the realtime \<open>join\<close> apply one rule:
  the request is refused (403, respectively \<open>ConnectionRefusedError\<close>) exactly when the token
  identifier has no row or its expiry lies strictly before the reading of the clock, and a
  refusal changes neither the database nor the connection; otherwise the handler goes on
  for the user who owns the token: \<open>get_rooms\<close> lists that user's rooms, \<open>join\<close> stores the
  identifier on the session and enters that user's four rooms. A token whose expiry is the
  very reading of the clock is accepted.
\<close>

theorem token_rule_http_and_join:
  "(fst (get_rooms clk p d (Some token_id)) = Inl (HTTPException 403)
      \<longleftrightarrow> token_rejected d (now_token clk) token_id) \<and>
   (token_rejected d (now_token clk) token_id \<longrightarrow> snd (get_rooms clk p d (Some token_id)) = d) \<and>
   (fst (join now d c token_id) = Inl (ConnectionRefusedError ''authentication failed'')
      \<longleftrightarrow> token_rejected d now token_id) \<and>
   (token_rejected d now token_id \<longrightarrow> snd (join now d c token_id) = c) \<and>
   (\<forall>token user. tokens d token_id = Some token \<and> users d (t_user_id token) = Some user \<longrightarrow>
      (\<not> token_rejected d (now_token clk) token_id \<longrightarrow>
         get_rooms clk p d (Some token_id) = get_rooms_user clk p d (t_user_id token) user) \<and>
      (\<not> token_rejected d now token_id \<longrightarrow>
         join now d c token_id =
           (Inr (), c\<lparr> session_token := Some token_id,
                       joined := joined c @ [u_artist_room_1 user, u_artist_room_2 user,
                                              u_genre_room_1 user, u_genre_room_2 user] \<rparr>)))"
proof -
  have 1: "fst (get_rooms clk p d (Some token_id)) = Inl (HTTPException 403)
      \<longleftrightarrow> token_rejected d (now_token clk) token_id"
    by (simp add: get_rooms_def token_rejected_def get_rooms_user_not_403 split: option.splits)
  have 2: "token_rejected d (now_token clk) token_id \<longrightarrow>
             snd (get_rooms clk p d (Some token_id)) = d"
    by (simp add: get_rooms_def token_rejected_def split: option.splits)
  have 3: "fst (join now d c token_id) = Inl (ConnectionRefusedError ''authentication failed'')
      \<longleftrightarrow> token_rejected d now token_id"
    by (simp add: join_def token_rejected_def split: option.splits)
  have 4: "token_rejected d now token_id \<longrightarrow> snd (join now d c token_id) = c"
    by (simp add: join_def token_rejected_def split: option.splits)
  have 5: "\<forall>token user. tokens d token_id = Some token \<and> users d (t_user_id token) = Some user \<longrightarrow>
      (\<not> token_rejected d (now_token clk) token_id \<longrightarrow>
         get_rooms clk p d (Some token_id) = get_rooms_user clk p d (t_user_id token) user) \<and>
      (\<not> token_rejected d now token_id \<longrightarrow>
         join now d c token_id =
           (Inr (), c\<lparr> session_token := Some token_id,
                       joined := joined c @ [u_artist_room_1 user, u_artist_room_2 user,
                                              u_genre_room_1 user, u_genre_room_2 user] \<rparr>))"
    by (simp add: get_rooms_def join_def token_rejected_def)
  from 1 2 3 4 5 show ?thesis by blast
qed

theorem token_rule_http_and_join_witness:
  "\<not> token_rejected db0 (now_token morning) ''code'' \<and>
   get_rooms morning scenario db0 (Some ''code'') =
     get_rooms_user morning scenario db0 ''ann'' ann \<and>
   token_rejected db0 700000000000 ''code'' \<and>
   fst (join 700000000000 db0 fresh_connection ''code'') =
     Inl (ConnectionRefusedError ''authentication failed'') \<and>
   snd (join 700000000000 db0 fresh_connection ''code'') = fresh_connection \<and>
   \<not> token_rejected db1 100 ''code'' \<and>
   join 100 db1 fresh_connection ''code'' = (Inr (), ann_connection)"
proof -
  have a: "\<not> token_rejected db0 (now_token morning) ''code''"
    by (simp add: token_rejected_def db0_def morning_def)
  have b: "token_rejected db0 700000000000 ''code''"
    by (simp add: token_rejected_def db0_def)
  have c: "\<not> token_rejected db1 100 ''code''"
    by (simp add: token_rejected_def db1_def)
  have t0: "tokens db0 ''code'' = Some \<lparr> t_expiry = 600000000000, t_user_id = ''ann'' \<rparr> \<and>
            users db0 (t_user_id \<lparr> t_expiry = 600000000000, t_user_id = ''ann'' \<rparr>) = Some ann"
    by (simp add: db0_def)
  have t1: "tokens db1 ''code'' = Some \<lparr> t_expiry = 600000000000, t_user_id = ''ann'' \<rparr> \<and>
            users db1 (t_user_id \<lparr> t_expiry = 600000000000, t_user_id = ''ann'' \<rparr>) = Some ann1"
    by (simp add: db1_def)
  have "get_rooms morning scenario db0 (Some ''code'') =
          get_rooms_user morning scenario db0 ''ann'' ann"
    using token_rule_http_and_join [of morning scenario db0 "''code''" 0 fresh_connection] a t0
    by auto
  moreover have "fst (join 700000000000 db0 fresh_connection ''code'') =
       Inl (ConnectionRefusedError ''authentication failed'') \<and>
     snd (join 700000000000 db0 fresh_connection ''code'') = fresh_connection"
    using token_rule_http_and_join
            [of morning scenario db0 "''code''" 700000000000 fresh_connection] b
    by blast
  moreover have "join 100 db1 fresh_connection ''code'' = (Inr (), ann_connection)"
    using token_rule_http_and_join [of morning scenario db1 "''code''" 100 fresh_connection] c t1
    by (auto simp: fresh_connection_def ann_connection_def ann1_def ann_def)
  ultimately show ?thesis using a b c by blast
qed

text \<open>
  The claim as the specification words it refuses a token from \<open>now \<ge> expiry\<close> on, at the
  listing, at \<open>join\<close> and at the post of a message. At the instant of expiry the listing
  answers 204 and \<open>join\<close> succeeds, and a post after the expiry is stored and acknowledged
  with 201.
\<close>

theorem token_rule_counterexample:
  "tokens db0 ''code'' = Some \<lparr> t_expiry = 600000000000, t_user_id = ''ann'' \<rparr> \<and>
   tokens db1 ''code'' = Some \<lparr> t_expiry = 600000000000, t_user_id = ''ann'' \<rparr> \<and>
   now_token at_expiry = 600000000000 \<and>
   fst (get_rooms at_expiry one_artist db0 (Some ''code'')) = Inr (Plain ''Not enough data'' 204) \<and>
   fst (join 600000000000 db0 fresh_connection ''code'') = Inr () \<and>
   po_result (message_created 700000000000 db1 ann_connection (Some ''rock'') ''hello'') =
     Inr (''Message sent'', 201)"
  by (simp add: run_defs db0_def db1_def at_expiry_def one_artist_def ann_def ann1_def join_def
      message_created_def fresh_connection_def ann_connection_def)

section \<open>The rooms listing\<close>

text \<open>
  Claim C7. On the cache-miss path with fewer than two top artists reported, the listing
  answers \<open>("Not enough data", 204)\<close>; the room table and the message table are unchanged,
  and the user keeps \<open>rooms_expiry\<close> and the four room assignments.
\<close>

theorem not_enough_data:
  assumes "tokens d token_id = Some token"
    and "\<not> t_expiry token < now_token clk"
    and "users d (t_user_id token) = Some user"
    and "rooms_expired clk user"
    and "ta_total (p_top_artists_data p) < 2"
  shows "fst (get_rooms clk p d (Some token_id)) = Inr (Plain ''Not enough data'' 204) \<and>
         rooms (snd (get_rooms clk p d (Some token_id))) = rooms d \<and>
         messages (snd (get_rooms clk p d (Some token_id))) = messages d \<and>
         (\<exists>user'. users (snd (get_rooms clk p d (Some token_id))) (t_user_id token) = Some user' \<and>
            u_rooms_expiry user' = u_rooms_expiry user \<and>
            u_artist_room_1 user' = u_artist_room_1 user \<and>
            u_artist_room_2 user' = u_artist_room_2 user \<and>
            u_genre_room_1 user' = u_genre_room_1 user \<and>
            u_genre_room_2 user' = u_genre_room_2 user)"
  using assms
  by (simp add: get_rooms_def get_rooms_user_def recompute_rooms_def refresh_access_token_def
      Let_def)

theorem not_enough_data_witness:
  "rooms_expired morning ann \<and> ta_total (p_top_artists_data one_artist) < 2 \<and>
   fst (get_rooms morning one_artist db0 (Some ''code'')) = Inr (Plain ''Not enough data'' 204) \<and>
   rooms (snd (get_rooms morning one_artist db0 (Some ''code''))) = rooms db0 \<and>
   messages (snd (get_rooms morning one_artist db0 (Some ''code''))) = messages db0 \<and>
   (\<exists>user'. users (snd (get_rooms morning one_artist db0 (Some ''code''))) ''ann'' = Some user' \<and>
      u_rooms_expiry user' = None \<and> u_artist_room_1 user' = None \<and>
      u_artist_room_2 user' = None \<and> u_genre_room_1 user' = None \<and>
      u_genre_room_2 user' = None)"
proof -
  have 1: "tokens db0 ''code'' = Some \<lparr> t_expiry = 600000000000, t_user_id = ''ann'' \<rparr>"
    by (simp add: db0_def)
  have 2: "\<not> t_expiry \<lparr> t_expiry = 600000000000, t_user_id = ''ann'' \<rparr> < now_token morning"
    by (simp add: morning_def)
  have 3: "users db0 (t_user_id \<lparr> t_expiry = 600000000000, t_user_id = ''ann'' \<rparr>) = Some ann"
    by (simp add: db0_def)
  have 4: "rooms_expired morning ann"
    by (simp add: rooms_expired_def ann_def)
  have 5: "ta_total (p_top_artists_data one_artist) < 2"
    by (simp add: one_artist_def)
  from not_enough_data [OF 1 2 3 4 5] 4 5 show ?thesis
    by (simp add: ann_def)
qed

text \<open>
  Claim C8. On the cache-miss path with at least two top artists reported and fewer than
  two distinct genre tags among the artists, the listing ends in \<open>IndexError\<close> with the
  session rolled back: neither the 200 response nor the 204 one is produced, so two
  distinct genres are necessary for the recomputation to complete.
\<close>

theorem too_few_genres:
  assumes "tokens d token_id = Some token"
    and "\<not> t_expiry token < now_token clk"
    and "users d (t_user_id token) = Some user"
    and "rooms_expired clk user"
    and "2 \<le> ta_total (p_top_artists_data p)"
    and "card (set (all_genres (ta_items (p_top_artists_data p)))) < 2"
  shows "get_rooms clk p d (Some token_id) = (Inl IndexError, d)"
proof -
  have "length (sorted_reverse (count_genres (ta_items (p_top_artists_data p)))) < 2"
    using assms(6) by (simp add: length_ranking)
  then have "recompute_rooms clk p d (t_user_id token) user = (Inl IndexError, d)"
    using assms(5)
    by (auto simp: recompute_rooms_def Let_def simp del: ensure_rooms.simps split: list.splits)
  with assms(1-4) show ?thesis
    by (simp add: get_rooms_def get_rooms_user_def)
qed

theorem too_few_genres_witness:
  "rooms_expired morning ann \<and> 2 \<le> ta_total (p_top_artists_data one_genre) \<and>
   card (set (all_genres (ta_items (p_top_artists_data one_genre)))) < 2 \<and>
   get_rooms morning one_genre db0 (Some ''code'') = (Inl IndexError, db0)"
proof -
  have 1: "tokens db0 ''code'' = Some \<lparr> t_expiry = 600000000000, t_user_id = ''ann'' \<rparr>"
    by (simp add: db0_def)
  have 2: "\<not> t_expiry \<lparr> t_expiry = 600000000000, t_user_id = ''ann'' \<rparr> < now_token morning"
    by (simp add: morning_def)
  have 3: "users db0 (t_user_id \<lparr> t_expiry = 600000000000, t_user_id = ''ann'' \<rparr>) = Some ann"
    by (simp add: db0_def)
  have 4: "rooms_expired morning ann"
    by (simp add: rooms_expired_def ann_def)
  have 5: "2 \<le> ta_total (p_top_artists_data one_genre)"
    by (simp add: one_genre_def)
  have 6: "card (set (all_genres (ta_items (p_top_artists_data one_genre)))) < 2"
    by (simp add: one_genre_def all_genres_def)
  from too_few_genres [OF 1 2 3 4 5 6] 4 5 6 show ?thesis
    by simp
qed

text \<open>
  Claim C5. Whenever the recomputation completes, the two artist rooms are the first two
  artists of the provider's list, and the two genre rooms are the two best tags of the
  ranking by total frequency over all returned artists, ties going to the tag met first:
  the first genre room ranks before every other tag, the second before every tag but the
  first. The rooms are a function of the provider's data, so equal data give equal rooms;
  on the scenario of the specification they are \<open>a1\<close>, \<open>a2\<close>, \<open>rock\<close> and \<open>pop\<close>.
\<close>

theorem genre_ranking:
  assumes "tokens d token_id = Some token"
    and "\<not> t_expiry token < now_token clk"
    and "users d (t_user_id token) = Some user"
    and "rooms_expired clk user"
    and "get_rooms clk p d (Some token_id) = (Inr (Jsonify rj), d')"
  shows "\<exists>a0 a1 rest g1 g2 user'.
           ta_items (p_top_artists_data p) = a0 # a1 # rest \<and>
           users d' (t_user_id token) = Some user' \<and>
           u_artist_room_1 user' = Some (a_id a0) \<and>
           u_artist_room_2 user' = Some (a_id a1) \<and>
           u_genre_room_1 user' = Some g1 \<and>
           u_genre_room_2 user' = Some g2 \<and>
           map rd_id (rj_rooms rj) = [a_id a0, a_id a1, g1, g2] \<and>
           g1 \<in> set (all_genres (ta_items (p_top_artists_data p))) \<and>
           g2 \<in> set (all_genres (ta_items (p_top_artists_data p))) \<and>
           ranks_before (all_genres (ta_items (p_top_artists_data p))) g1 g2 \<and>
           (\<forall>g \<in> set (all_genres (ta_items (p_top_artists_data p))).
              g \<noteq> g1 \<longrightarrow> ranks_before (all_genres (ta_items (p_top_artists_data p))) g1 g) \<and>
           (\<forall>g \<in> set (all_genres (ta_items (p_top_artists_data p))).
              g \<noteq> g1 \<longrightarrow> g \<noteq> g2 \<longrightarrow>
              ranks_before (all_genres (ta_items (p_top_artists_data p))) g2 g)"
proof -
  let ?its = "ta_items (p_top_artists_data p)"
  let ?uid = "t_user_id token"
  have "recompute_rooms clk p d ?uid user = (Inr (Jsonify rj), d')"
    using get_rooms_recompute [OF assms(1-4)] assms(5) by simp
  from recompute_rooms_Jsonify [OF this] obtain a0 a1 rest g0 g1 gs where
    its: "?its = a0 # a1 # rest"
    and srt: "sorted_reverse (count_genres ?its) = g0 # g1 # gs"
    and ens: "ensure_rooms
      (d\<lparr>users := (users d)(?uid \<mapsto>
           assign_rooms (refresh_access_token clk p user) a0 a1 g0 g1 (new_rooms_expiry clk))\<rparr>)
      [artist_room a0, artist_room a1, genre_room g0, genre_room g1] = Inr (rj_rooms rj, d')"
    by blast
  let ?user' = "assign_rooms (refresh_access_token clk p user) a0 a1 g0 g1 (new_rooms_expiry clk)"
  have u: "users d' ?uid = Some ?user'"
    using ensure_rooms_frame [OF ens] by simp
  have ids: "map rd_id (rj_rooms rj) = [a_id a0, a_id a1, fst g0, fst g1]"
    using ensure_rooms_ids [OF ens] by (simp add: artist_room_def genre_room_def)
  have f: "u_artist_room_1 ?user' = Some (a_id a0)" "u_artist_room_2 ?user' = Some (a_id a1)"
    "u_genre_room_1 ?user' = Some (fst g0)" "u_genre_room_2 ?user' = Some (fst g1)"
    by (simp_all add: assign_rooms_def)
  show ?thesis
    using its u f ids top_two [OF srt] by - (intro exI conjI, assumption+)
qed

theorem genre_ranking_witness:
  "rooms_expired morning ann \<and>
   get_rooms morning scenario db0 (Some ''code'') = (Inr (Jsonify first_listing), db1) \<and>
   users db1 ''ann'' = Some ann1 \<and>
   u_artist_room_1 ann1 = Some ''a1'' \<and> u_artist_room_2 ann1 = Some ''a2'' \<and>
   u_genre_room_1 ann1 = Some ''rock'' \<and> u_genre_room_2 ann1 = Some ''pop'' \<and>
   frequency (all_genres (ta_items (p_top_artists_data scenario))) ''rock'' = 3 \<and>
   frequency (all_genres (ta_items (p_top_artists_data scenario))) ''pop'' = 1 \<and>
   ranks_before (all_genres (ta_items (p_top_artists_data scenario))) ''rock'' ''pop''"
proof -
  have 1: "tokens db0 ''code'' = Some \<lparr> t_expiry = 600000000000, t_user_id = ''ann'' \<rparr>"
    by (simp add: db0_def)
  have 2: "\<not> t_expiry \<lparr> t_expiry = 600000000000, t_user_id = ''ann'' \<rparr> < now_token morning"
    by (simp add: morning_def)
  have 3: "users db0 (t_user_id \<lparr> t_expiry = 600000000000, t_user_id = ''ann'' \<rparr>) = Some ann"
    by (simp add: db0_def)
  have 4: "rooms_expired morning ann"
    by (simp add: rooms_expired_def ann_def)
  have u: "users db1 ''ann'' = Some ann1"
    by (simp add: db1_def)
  have f: "u_artist_room_1 ann1 = Some ''a1''" "u_artist_room_2 ann1 = Some ''a2''"
    "u_genre_room_1 ann1 = Some ''rock''" "u_genre_room_2 ann1 = Some ''pop''"
    by (simp_all add: ann1_def)
  have c: "frequency (all_genres (ta_items (p_top_artists_data scenario))) ''rock'' = 3"
    "frequency (all_genres (ta_items (p_top_artists_data scenario))) ''pop'' = 1"
    by (simp_all add: frequency_def all_genres_def scenario_def)
  from genre_ranking [OF 1 2 3 4 run_morning] obtain g1 g2 user' where
    "users db1 (t_user_id \<lparr> t_expiry = 600000000000, t_user_id = ''ann'' \<rparr>) = Some user'"
    and "u_genre_room_1 user' = Some g1" and "u_genre_room_2 user' = Some g2"
    and r: "ranks_before (all_genres (ta_items (p_top_artists_data scenario))) g1 g2"
    by blast
  with u f have "g1 = ''rock''" and "g2 = ''pop''" by simp_all
  with r have "ranks_before (all_genres (ta_items (p_top_artists_data scenario))) ''rock'' ''pop''"
    by simp
  with 4 run_morning u f c show ?thesis by simp
qed

text \<open>
  Claim C6. A completed recomputation stores as \<open>rooms_expiry\<close> the midnight that follows
  \<open>today()\<close>: a multiple of the day, after \<open>today()\<close> and at most one day after it. Every
  later listing with a valid token whose clock reads less than that midnight takes the
  cache-hit path, leaves the database as it is and returns the same four room identifiers.
\<close>

theorem recompute_once_per_day:
  assumes "tokens d token_id = Some token"
    and "\<not> t_expiry token < now_token clk"
    and "users d (t_user_id token) = Some user"
    and "rooms_expired clk user"
    and "get_rooms clk p d (Some token_id) = (Inr (Jsonify rj), d')"
  shows "\<exists>user'. users d' (t_user_id token) = Some user' \<and>
           u_rooms_expiry user' = Some (new_rooms_expiry clk) \<and>
           new_rooms_expiry clk mod microseconds_per_day = 0 \<and>
           today clk < new_rooms_expiry clk \<and>
           new_rooms_expiry clk \<le> today clk + microseconds_per_day \<and>
           (\<forall>clk' p'. \<not> t_expiry token < now_token clk' \<and>
                      now_rooms clk' < new_rooms_expiry clk \<longrightarrow>
              \<not> rooms_expired clk' user' \<and>
              (\<exists>rj'. get_rooms clk' p' d' (Some token_id) = (Inr (Jsonify rj'), d') \<and>
                     map rd_id (rj_rooms rj') = map rd_id (rj_rooms rj)))"
proof -
  let ?uid = "t_user_id token"
  have "recompute_rooms clk p d ?uid user = (Inr (Jsonify rj), d')"
    using get_rooms_recompute [OF assms(1-4)] assms(5) by simp
  from recompute_rooms_Jsonify [OF this] obtain a0 a1 g0 g1 where
    ens: "ensure_rooms
      (d\<lparr>users := (users d)(?uid \<mapsto>
           assign_rooms (refresh_access_token clk p user) a0 a1 g0 g1 (new_rooms_expiry clk))\<rparr>)
      [artist_room a0, artist_room a1, genre_room g0, genre_room g1] = Inr (rj_rooms rj, d')"
    by blast
  let ?user' = "assign_rooms (refresh_access_token clk p user) a0 a1 g0 g1 (new_rooms_expiry clk)"
  let ?rs = "[artist_room a0, artist_room a1, genre_room g0, genre_room g1]"
  have u: "users d' ?uid = Some ?user'"
    using ensure_rooms_frame [OF ens] by simp
  have t: "tokens d' token_id = Some token"
    using ensure_rooms_frame [OF ens] assms(1) by simp
  have e: "u_rooms_expiry ?user' = Some (new_rooms_expiry clk)"
    by (simp add: assign_rooms_def)
  have four: "[u_artist_room_1 ?user', u_artist_room_2 ?user',
               u_genre_room_1 ?user', u_genre_room_2 ?user'] = map (\<lambda>r. Some (rd_id r)) ?rs"
    by (simp add: assign_rooms_def artist_room_def genre_room_def)
  from load_after_ensure [OF ens] obtain out
    where l: "load_rooms d' (map (\<lambda>r. Some (rd_id r)) ?rs) = Inr out"
      and ids: "map rd_id out = map rd_id (rj_rooms rj)"
    by blast
  have c: "cached_rooms d' ?user' =
             (Inr (Jsonify \<lparr> rj_rooms = out,
                             rj_expiry = epoch_seconds (new_rooms_expiry clk) \<rparr>), d')"
    unfolding cached_rooms_def four l using e by simp
  have again: "\<forall>clk' p'. \<not> t_expiry token < now_token clk' \<and>
                      now_rooms clk' < new_rooms_expiry clk \<longrightarrow>
              \<not> rooms_expired clk' ?user' \<and>
              (\<exists>rj'. get_rooms clk' p' d' (Some token_id) = (Inr (Jsonify rj'), d') \<and>
                     map rd_id (rj_rooms rj') = map rd_id (rj_rooms rj))"
  proof (intro allI impI)
    fix clk' :: clock and p' :: provider
    assume a: "\<not> t_expiry token < now_token clk' \<and> now_rooms clk' < new_rooms_expiry clk"
    have n: "\<not> rooms_expired clk' ?user'"
      using a e by (simp add: rooms_expired_def)
    from a have v: "\<not> t_expiry token < now_token clk'" by simp
    from get_rooms_cached [OF t v u n] c ids n
    show "\<not> rooms_expired clk' ?user' \<and>
              (\<exists>rj'. get_rooms clk' p' d' (Some token_id) = (Inr (Jsonify rj'), d') \<and>
                     map rd_id (rj_rooms rj') = map rd_id (rj_rooms rj))"
      by simp
  qed
  show ?thesis
    using u e new_rooms_expiry_midnight [of clk] again
    by - (intro exI conjI, assumption+)
qed

theorem recompute_once_per_day_witness:
  "rooms_expired morning ann \<and>
   get_rooms morning scenario db0 (Some ''code'') = (Inr (Jsonify first_listing), db1) \<and>
   new_rooms_expiry morning = 86400000000 \<and>
   u_rooms_expiry ann1 = Some 86400000000 \<and>
   now_rooms noon < new_rooms_expiry morning \<and>
   (\<exists>rj'. get_rooms noon one_artist db1 (Some ''code'') = (Inr (Jsonify rj'), db1) \<and>
          map rd_id (rj_rooms rj') = [''a1'', ''a2'', ''rock'', ''pop''])"
proof -
  have 1: "tokens db0 ''code'' = Some \<lparr> t_expiry = 600000000000, t_user_id = ''ann'' \<rparr>"
    by (simp add: db0_def)
  have 2: "\<not> t_expiry \<lparr> t_expiry = 600000000000, t_user_id = ''ann'' \<rparr> < now_token morning"
    by (simp add: morning_def)
  have 3: "users db0 (t_user_id \<lparr> t_expiry = 600000000000, t_user_id = ''ann'' \<rparr>) = Some ann"
    by (simp add: db0_def)
  have 4: "rooms_expired morning ann"
    by (simp add: rooms_expired_def ann_def)
  have e: "new_rooms_expiry morning = 86400000000"
    by (simp add: new_rooms_expiry_def combine_time_min_def timedelta_days_def
        microseconds_per_day_def microseconds_per_second_def morning_def)
  have e1: "u_rooms_expiry ann1 = Some 86400000000"
    by (simp add: ann1_def)
  have n: "\<not> t_expiry \<lparr> t_expiry = 600000000000, t_user_id = ''ann'' \<rparr> < now_token noon \<and>
           now_rooms noon < new_rooms_expiry morning"
    by (simp add: e noon_def)
  have ids: "map rd_id (rj_rooms first_listing) = [''a1'', ''a2'', ''rock'', ''pop'']"
    by (simp add: first_listing_def)
  from recompute_once_per_day [OF 1 2 3 4 run_morning] n
  have "\<exists>rj'. get_rooms noon one_artist db1 (Some ''code'') = (Inr (Jsonify rj'), db1) \<and>
          map rd_id (rj_rooms rj') = map rd_id (rj_rooms first_listing)"
    by blast
  with 4 run_morning e e1 n ids show ?thesis by simp
qed

text \<open>
  Claim C3, as the code has it. After a completed recomputation, every later listing of
  the same day with a valid token is served from the stored rows and returns the same
  expiry and, room by room, the same identifier and the same history as the recomputation
  did. For a room whose row the recomputation created (no row with that identifier before,
  the four identifiers distinct) it also returns the same name, and for such a room of an
  artist slot the same type \<open>artist\<close> and the same images. Nothing is said of the type of a
  genre room on the cache-hit path.
\<close>

theorem listing_paths_agree:
  assumes "tokens d token_id = Some token"
    and "\<not> t_expiry token < now_token clk"
    and "users d (t_user_id token) = Some user"
    and "rooms_expired clk user"
    and "get_rooms clk p d (Some token_id) = (Inr (Jsonify rj), d')"
    and "\<not> t_expiry token < now_token clk'"
    and "now_rooms clk' < new_rooms_expiry clk"
    and "distinct (map rd_id (rj_rooms rj))"
  shows "\<exists>rj'. get_rooms clk' p' d' (Some token_id) = (Inr (Jsonify rj'), d') \<and>
           rj_expiry rj' = rj_expiry rj \<and>
           list_all2 (\<lambda>r r'. rd_id r' = rd_id r \<and> rd_messages r' = rd_messages r \<and>
              (rooms d (rd_id r) = None \<longrightarrow>
                 rd_name r' = rd_name r \<and>
                 (rd_type r = ''artist'' \<longrightarrow>
                    rd_type r' = ''artist'' \<and> rd_images r' = rd_images r)))
             (rj_rooms rj) (rj_rooms rj')"
proof -
  let ?uid = "t_user_id token"
  have "recompute_rooms clk p d ?uid user = (Inr (Jsonify rj), d')"
    using get_rooms_recompute [OF assms(1-4)] assms(5) by simp
  from recompute_rooms_Jsonify [OF this] obtain a0 a1 g0 g1 where
    ens: "ensure_rooms
      (d\<lparr>users := (users d)(?uid \<mapsto>
           assign_rooms (refresh_access_token clk p user) a0 a1 g0 g1 (new_rooms_expiry clk))\<rparr>)
      [artist_room a0, artist_room a1, genre_room g0, genre_room g1] = Inr (rj_rooms rj, d')"
    and x: "rj_expiry rj = epoch_seconds (new_rooms_expiry clk)"
    by blast
  let ?user' = "assign_rooms (refresh_access_token clk p user) a0 a1 g0 g1 (new_rooms_expiry clk)"
  let ?ds = "d\<lparr>users := (users d)(?uid \<mapsto> ?user')\<rparr>"
  let ?rs = "[artist_room a0, artist_room a1, genre_room g0, genre_room g1]"
  have u: "users d' ?uid = Some ?user'"
    using ensure_rooms_frame [OF ens] by simp
  have t: "tokens d' token_id = Some token"
    using ensure_rooms_frame [OF ens] assms(1) by simp
  have e: "u_rooms_expiry ?user' = Some (new_rooms_expiry clk)"
    by (simp add: assign_rooms_def)
  have n: "\<not> rooms_expired clk' ?user'"
    using assms(7) e by (simp add: rooms_expired_def)
  have four: "[u_artist_room_1 ?user', u_artist_room_2 ?user',
               u_genre_room_1 ?user', u_genre_room_2 ?user'] = map (\<lambda>r. Some (rd_id r)) ?rs"
    by (simp add: assign_rooms_def artist_room_def genre_room_def)
  from load_after_ensure [OF ens] obtain out
    where l: "load_rooms d' (map (\<lambda>r. Some (rd_id r)) ?rs) = Inr out"
    by blast
  have dist: "distinct (map rd_id ?rs)"
    using ensure_rooms_ids [OF ens] assms(8) by simp
  have names: "\<forall>r \<in> set ?rs. rd_type r \<noteq> ''artist'' \<longrightarrow> rd_name r = rd_id r"
    by (simp add: artist_room_def genre_room_def)
  have c: "cached_rooms d' ?user' =
             (Inr (Jsonify \<lparr> rj_rooms = out,
                             rj_expiry = epoch_seconds (new_rooms_expiry clk) \<rparr>), d')"
    unfolding cached_rooms_def four l using e by simp
  have agree: "list_all2 (\<lambda>r r'. rd_id r' = rd_id r \<and> rd_messages r' = rd_messages r \<and>
              (rooms d (rd_id r) = None \<longrightarrow>
                 rd_name r' = rd_name r \<and>
                 (rd_type r = ''artist'' \<longrightarrow>
                    rd_type r' = ''artist'' \<and> rd_images r' = rd_images r)))
             (rj_rooms rj) out"
    using load_agrees_with_ensure [OF ens dist names l] by simp
  from get_rooms_cached [OF t assms(6) u n] c x agree show ?thesis by simp
qed

theorem listing_paths_agree_witness:
  "rooms_expired morning ann \<and>
   get_rooms morning scenario db0 (Some ''code'') = (Inr (Jsonify first_listing), db1) \<and>
   now_rooms noon < new_rooms_expiry morning \<and>
   distinct (map rd_id (rj_rooms first_listing)) \<and>
   map (\<lambda>r. rooms db0 (rd_id r)) (rj_rooms first_listing) = [None, None, None, None] \<and>
   get_rooms noon one_artist db1 (Some ''code'') = (Inr (Jsonify second_listing), db1) \<and>
   map rd_id (rj_rooms second_listing) = map rd_id (rj_rooms first_listing) \<and>
   map rd_name (rj_rooms second_listing) = map rd_name (rj_rooms first_listing) \<and>
   map rd_messages (rj_rooms second_listing) = map rd_messages (rj_rooms first_listing) \<and>
   take 2 (map rd_type (rj_rooms second_listing)) = take 2 (map rd_type (rj_rooms first_listing))"
proof -
  have 1: "tokens db0 ''code'' = Some \<lparr> t_expiry = 600000000000, t_user_id = ''ann'' \<rparr>"
    by (simp add: db0_def)
  have 2: "\<not> t_expiry \<lparr> t_expiry = 600000000000, t_user_id = ''ann'' \<rparr> < now_token morning"
    by (simp add: morning_def)
  have 3: "users db0 (t_user_id \<lparr> t_expiry = 600000000000, t_user_id = ''ann'' \<rparr>) = Some ann"
    by (simp add: db0_def)
  have 4: "rooms_expired morning ann"
    by (simp add: rooms_expired_def ann_def)
  have 6: "\<not> t_expiry \<lparr> t_expiry = 600000000000, t_user_id = ''ann'' \<rparr> < now_token noon"
    by (simp add: noon_def)
  have 7: "now_rooms noon < new_rooms_expiry morning"
    by (simp add: new_rooms_expiry_def combine_time_min_def timedelta_days_def
        microseconds_per_day_def microseconds_per_second_def morning_def noon_def)
  have 8: "distinct (map rd_id (rj_rooms first_listing))"
    by (simp add: first_listing_def)
  have new: "\<forall>r \<in> set (rj_rooms first_listing). rooms db0 (rd_id r) = None"
    by (simp add: first_listing_def db0_def)
  from listing_paths_agree [OF 1 2 3 4 run_morning 6 7 8, of one_artist] obtain rj' where
    run: "get_rooms noon one_artist db1 (Some ''code'') = (Inr (Jsonify rj'), db1)"
    and x: "rj_expiry rj' = rj_expiry first_listing"
    and agree: "list_all2 (\<lambda>r r'. rd_id r' = rd_id r \<and> rd_messages r' = rd_messages r \<and>
              (rooms db0 (rd_id r) = None \<longrightarrow>
                 rd_name r' = rd_name r \<and>
                 (rd_type r = ''artist'' \<longrightarrow>
                    rd_type r' = ''artist'' \<and> rd_images r' = rd_images r)))
             (rj_rooms first_listing) (rj_rooms rj')"
    by blast
  have "get_rooms noon one_artist db1 (Some ''code'') = (Inr (Jsonify second_listing), db1)"
    by (simp add: run_defs db1_def ann_def ann1_def second_listing_def noon_def)
  with run have "rj' = second_listing" by simp
  with agree new have "map rd_id (rj_rooms second_listing) = map rd_id (rj_rooms first_listing)"
    and "map rd_name (rj_rooms second_listing) = map rd_name (rj_rooms first_listing)"
    and "map rd_messages (rj_rooms second_listing) = map rd_messages (rj_rooms first_listing)"
    by (auto simp: list_all2_conv_all_nth intro!: nth_equalityI)
  moreover have "map (\<lambda>r. rooms db0 (rd_id r)) (rj_rooms first_listing) =
                   [None, None, None, None]"
    by (simp add: first_listing_def db0_def)
  ultimately show ?thesis
    using 4 run_morning 7 8 run \<open>rj' = second_listing\<close>
    by (simp add: first_listing_def second_listing_def)
qed

text \<open>
  The claim as the specification words it gives every room the same type, name and
  identifier on both paths, the genre rooms being of type \<open>genre\<close>. When the room of artist
  \<open>a1\<close> exists already under an older name, the recomputation lists it with the provider's
  name \<open>A\<close> and keeps the row, and the listing at noon returns the name of the row; the
  genre rooms are listed as \<open>genre\<close> in the morning and as \<open>artist\<close> at noon.
\<close>

theorem listing_paths_differ:
  "rooms_expired morning ann \<and>
   get_rooms morning scenario db0_renamed (Some ''code'') =
     (Inr (Jsonify first_listing), db1_renamed) \<and>
   users db1_renamed ''ann'' = Some ann1 \<and> \<not> rooms_expired noon ann1 \<and>
   fst (get_rooms noon scenario db1_renamed (Some ''code'')) =
     Inr (Jsonify (second_listing\<lparr> rj_rooms :=
        \<lparr> rd_type = ''artist'', rd_name = ''Formerly A'', rd_id = ''a1'',
          rd_images = Some [''old.png''], rd_messages = Some [] \<rparr> #
        tl (rj_rooms second_listing) \<rparr>)) \<and>
   map rd_name (rj_rooms first_listing) = [''A'', ''B'', ''rock'', ''pop''] \<and>
   map rd_type (rj_rooms first_listing) = [''artist'', ''artist'', ''genre'', ''genre''] \<and>
   map rd_type (rj_rooms second_listing) = [''artist'', ''artist'', ''artist'', ''artist'']"
proof -
  have "get_rooms morning scenario db0_renamed (Some ''code'') =
          (Inr (Jsonify first_listing), db1_renamed)"
    by (simp add: run_defs scenario_def count_genres_def sorted_reverse_def db0_renamed_def
        db1_renamed_def db0_def db1_def ann_def ann1_def first_listing_def morning_def)
  moreover have "fst (get_rooms noon scenario db1_renamed (Some ''code'')) =
     Inr (Jsonify (second_listing\<lparr> rj_rooms :=
        \<lparr> rd_type = ''artist'', rd_name = ''Formerly A'', rd_id = ''a1'',
          rd_images = Some [''old.png''], rd_messages = Some [] \<rparr> #
        tl (rj_rooms second_listing) \<rparr>))"
    by (simp add: run_defs db1_renamed_def db1_def ann_def ann1_def second_listing_def noon_def)
  moreover have "rooms_expired morning ann" "\<not> rooms_expired noon ann1"
    "users db1_renamed ''ann'' = Some ann1"
    by (simp_all add: rooms_expired_def ann_def ann1_def noon_def db1_renamed_def db1_def)
  ultimately show ?thesis
    by (simp add: first_listing_def second_listing_def)
qed

text \<open>
  Claim C4 says that every room row created by the recomputation carries the type of the
  assignment that produced it. The code does not: on the scenario the rows \<open>rock\<close> and
  \<open>pop\<close>, absent before and created for the two genre entries, are stored with
  \<open>room_type = "artist"\<close>, the constant of line 284.
\<close>

theorem genre_rooms_stored_as_artist:
  "rooms db0 ''rock'' = None \<and> rooms db0 ''pop'' = None \<and>
   snd (get_rooms morning scenario db0 (Some ''code'')) = db1 \<and>
   map rd_id (rj_rooms first_listing) = [''a1'', ''a2'', ''rock'', ''pop''] \<and>
   map rd_type (rj_rooms first_listing) = [''artist'', ''artist'', ''genre'', ''genre''] \<and>
   map (\<lambda>rid. map_option r_room_type (rooms db1 rid)) [''a1'', ''a2'', ''rock'', ''pop''] =
     [Some ''artist'', Some ''artist'', Some ''artist'', Some ''artist'']"
  using run_morning by (simp add: db0_def db1_def first_listing_def)

section \<open>Posting a message\<close>

text \<open>
  Claim C10. A \<open>new message\<close> event on a connection whose session holds no token (no
  \<open>join\<close> has succeeded on it) is not answered with the 403 acknowledgement: reading
  \<open>session.token\<close> raises \<open>AttributeError\<close>, nothing is emitted and the database, so the
  message table, is as before.
\<close>

theorem post_without_join:
  "session_token c = None \<Longrightarrow>
     message_created now d c room body =
       \<lparr> po_result = Inl AttributeError, po_db = d, po_emitted = None \<rparr>"
  by (simp add: message_created_def)

theorem post_without_join_witness:
  "session_token fresh_connection = None \<and>
   message_created 100 db0 fresh_connection (Some ''rock'') ''hello'' =
     \<lparr> po_result = Inl AttributeError, po_db = db0, po_emitted = None \<rparr>"
proof -
  have h: "session_token fresh_connection = None"
    by (simp add: fresh_connection_def)
  show ?thesis
    by (rule conjI [OF h post_without_join [OF h]])
qed

text \<open>
  Claim C2. On an authenticated connection (the session token names a token row whose
  user exists), a post to a room that is none of the caller's four stored assignments is
  acknowledged with \<open>("User does not have access to room", 403)\<close>; nothing is emitted and
  the database, so every room's history, is unchanged.
\<close>

theorem post_forbidden:
  assumes "session_token c = Some token_id"
    and "tokens d token_id = Some token"
    and "users d (t_user_id token) = Some user"
    and "room \<notin> {u_artist_room_1 user, u_artist_room_2 user,
                   u_genre_room_1 user, u_genre_room_2 user}"
  shows "message_created now d c room body =
           \<lparr> po_result = Inr (''User does not have access to room'', 403),
             po_db = d, po_emitted = None \<rparr>"
  using assms by (simp add: message_created_def)

theorem post_forbidden_witness:
  "message_created 100 db1 ann_connection (Some ''jazz'') ''hello'' =
     \<lparr> po_result = Inr (''User does not have access to room'', 403),
       po_db = db1, po_emitted = None \<rparr>"
proof -
  have 1: "session_token ann_connection = Some ''code''"
    by (simp add: ann_connection_def)
  have 2: "tokens db1 ''code'' = Some \<lparr> t_expiry = 600000000000, t_user_id = ''ann'' \<rparr>"
    by (simp add: db1_def)
  have 3: "users db1 (t_user_id \<lparr> t_expiry = 600000000000, t_user_id = ''ann'' \<rparr>) = Some ann1"
    by (simp add: db1_def)
  have 4: "Some ''jazz'' \<notin> {u_artist_room_1 ann1, u_artist_room_2 ann1,
                               u_genre_room_1 ann1, u_genre_room_2 ann1}"
    by (simp add: ann1_def ann_def)
  show ?thesis
    by (rule post_forbidden [OF 1 2 3 4])
qed

text \<open>
  Claim C9. A message that \<open>message_created\<close> has appended is broadcast as
  \<open>{id, body, timestamp, room_id, user: {id, display_name, profile_picture, spotify_link}}\<close>
  with the identifier and body of the stored row, its creation time in epoch seconds, its
  room and the fields of the posting user; the history of the room, marshalled from the
  database after the post as both paths of the listing do, is the history before the post
  followed by that very value.
\<close>

theorem message_round_trip:
  assumes "po_result (message_created now d c room body) = Inr (''Message sent'', 201)"
  shows "\<exists>rid token_id token user j.
           room = Some rid \<and> session_token c = Some token_id \<and>
           tokens d token_id = Some token \<and> users d (t_user_id token) = Some user \<and>
           j = \<lparr> mj_id = next_id (messages d), mj_body = body,
                 mj_timestamp = epoch_seconds now, mj_room_id = rid,
                 mj_user = \<lparr> uj_id = t_user_id token,
                             uj_display_name = u_display_name user,
                             uj_profile_picture = u_profile_picture user,
                             uj_spotify_link = u_spotify_link user \<rparr> \<rparr> \<and>
           po_emitted (message_created now d c room body) = Some (rid, j) \<and>
           (\<forall>hist. marshal_all d (room_messages d rid) = Inr hist \<longrightarrow>
              marshal_all (po_db (message_created now d c room body))
                (room_messages (po_db (message_created now d c room body)) rid) =
              Inr (hist @ [j]))"
proof -
  from message_created_sent [OF assms] obtain rid token_id token user where
    r: "room = Some rid" and s: "session_token c = Some token_id"
    and t: "tokens d token_id = Some token" and u: "users d (t_user_id token) = Some user"
    and eq: "message_created now d c room body =
             \<lparr> po_result = Inr (''Message sent'', 201),
               po_db = d\<lparr>messages := messages d @
                   [\<lparr> m_id = next_id (messages d), m_body = body, m_timestamp = now,
                      m_user_id = t_user_id token, m_room_id = rid \<rparr>]\<rparr>,
               po_emitted = Some (rid,
                 \<lparr> mj_id = next_id (messages d), mj_body = body,
                   mj_timestamp = epoch_seconds now, mj_room_id = rid,
                   mj_user = \<lparr> uj_id = t_user_id token,
                               uj_display_name = u_display_name user,
                               uj_profile_picture = u_profile_picture user,
                               uj_spotify_link = u_spotify_link user \<rparr> \<rparr>) \<rparr>"
    by blast
  let ?m = "\<lparr> m_id = next_id (messages d), m_body = body, m_timestamp = now,
              m_user_id = t_user_id token, m_room_id = rid \<rparr>"
  let ?j = "\<lparr> mj_id = next_id (messages d), mj_body = body,
              mj_timestamp = epoch_seconds now, mj_room_id = rid,
              mj_user = \<lparr> uj_id = t_user_id token,
                          uj_display_name = u_display_name user,
                          uj_profile_picture = u_profile_picture user,
                          uj_spotify_link = u_spotify_link user \<rparr> \<rparr>"
  let ?d' = "d\<lparr>messages := messages d @ [?m]\<rparr>"
  have db: "po_db (message_created now d c room body) = ?d'"
    and em: "po_emitted (message_created now d c room body) = Some (rid, ?j)"
    by (simp_all add: eq)
  have rm: "room_messages ?d' rid = room_messages d rid @ [?m]"
    by (simp add: room_messages_def)
  have ma: "marshal_all ?d' ms = marshal_all d ms" for ms
    by (rule marshal_all_cong) simp
  have mj: "marshal ?d' ?m = Inr ?j"
    using u by (simp add: marshal_def)
  have hist: "\<forall>hist. marshal_all d (room_messages d rid) = Inr hist \<longrightarrow>
              marshal_all (po_db (message_created now d c room body))
                (room_messages (po_db (message_created now d c room body)) rid) =
              Inr (hist @ [?j])"
    unfolding db rm ma marshal_all_snoc mj by simp
  show ?thesis
    using r s t u refl [of ?j] em hist
    by - (intro exI conjI, assumption+)
qed

theorem message_round_trip_witness:
  "po_result (message_created 50000000000 db1 ann_connection (Some ''rock'') ''hello'') =
     Inr (''Message sent'', 201) \<and>
   po_emitted (message_created 50000000000 db1 ann_connection (Some ''rock'') ''hello'') =
     Some (''rock'', hello) \<and>
   marshal_all db1 (room_messages db1 ''rock'') = Inr [] \<and>
   marshal_all (po_db (message_created 50000000000 db1 ann_connection (Some ''rock'') ''hello''))
     (room_messages
        (po_db (message_created 50000000000 db1 ann_connection (Some ''rock'') ''hello''))
        ''rock'') = Inr [hello]"
proof -
  let ?run = "message_created 50000000000 db1 ann_connection (Some ''rock'') ''hello''"
  have 1: "po_result ?run = Inr (''Message sent'', 201)"
    by (simp add: message_created_def marshal_def Let_def db1_def ann_connection_def ann1_def
        ann_def)
  have e: "po_emitted ?run = Some (''rock'', hello)"
    by (simp add: message_created_def marshal_def Let_def db1_def ann_connection_def ann1_def
        ann_def hello_def next_id_def epoch_seconds_def microseconds_per_second_def)
  have h: "marshal_all db1 (room_messages db1 ''rock'') = Inr []"
    by (simp add: room_messages_def db1_def)
  from message_round_trip [OF 1] obtain rid j where
    "Some ''rock'' = Some rid" and "po_emitted ?run = Some (rid, j)"
    and "\<forall>hist. marshal_all db1 (room_messages db1 rid) = Inr hist \<longrightarrow>
           marshal_all (po_db ?run) (room_messages (po_db ?run) rid) = Inr (hist @ [j])"
    by blast
  with e h have "marshal_all (po_db ?run) (room_messages (po_db ?run) ''rock'') = Inr [hello]"
    by simp
  with 1 e h show ?thesis by simp
qed

end
